theory Spec2Isabelle
  imports Main "HOL-Library.Word"
begin

section \<open>TPU compilation cache keys (tensorflow/core/tpu/kernels/tpu_op_util.cc)\<close>

text \<open>
  The file derives the key under which a compiled TPU program is cached. It has three
  file-local helpers (\<open>GuaranteedConstFingerprint\<close>, \<open>CreateShapePrefix\<close>,
  \<open>CreateConfigPrefix\<close>) and two overloads of \<open>CreateCompilationCacheKey\<close>. The two
  functions of the native compile API that it calls, the protocol buffer of the
  compilation metadata and the key structure are declared in other files; what the
  embedding assumes about them is said where each is introduced.
\<close>

subsection \<open>Machine integers and their decimal text\<close>

type_synonym int64 = "64 word"
type_synonym uint64 = "64 word"
type_synonym int32 = "32 word"
type_synonym byte = "8 word"

definition digit_char :: "nat \<Rightarrow> char" where
  "digit_char d = ''0123456789'' ! d"

fun nat_digits :: "nat \<Rightarrow> string" where
  "nat_digits n =
     (if n < 10 then [digit_char n]
      else nat_digits (n div 10) @ [digit_char (n mod 10)])"

declare nat_digits.simps [simp del]

text \<open>
  \<open>absl::StrAppend\<close> of a signed integer of any width (an \<open>int64\<close>, or an \<open>int\<close>, to which
  an enumeration value converts): the signed decimal text, \<open>-\<close> first when negative.
\<close>

definition AlphaNum :: "'a::len word \<Rightarrow> string" where
  "AlphaNum v =
     (if sint v < 0 then CHR ''-'' # nat_digits (nat (- sint v))
      else nat_digits (nat (sint v)))"

text \<open>\<open>std::to_string\<close> of a \<open>uint64_t\<close>: the unsigned decimal text.\<close>

definition to_string :: "uint64 \<Rightarrow> string" where
  "to_string v = nat_digits (unat v)"

subsection \<open>String views\<close>

text \<open>
  An \<open>absl::string_view\<close> is a pointer and a length. \<open>view\<close> is the text of the view, the
  characters from the pointer up to the length. \<open>beyond\<close> is what the memory holds after
  the end of the view, up to the next NUL byte: it is not part of the view, and a reader
  that is given \<open>data()\<close> alone, without the length, reads it too. Such a reader stops
  at the first NUL byte, which may lie inside the view.
\<close>

datatype string_view = string_view (view: string) (beyond: string)

definition c_str :: "string_view \<Rightarrow> string" where
  "c_str v = takeWhile (\<lambda>c. c \<noteq> CHR 0x00) (view v @ beyond v)"

subsection \<open>Tensors, shapes and the compilation metadata\<close>

text \<open>
  A tensor is read only through \<open>tensor_data()\<close>, its raw bytes; a shape only through
  \<open>dim_sizes()\<close>.
\<close>

datatype Tensor = Tensor (tensor_data: "byte list")

datatype TensorShape = TensorShape (dim_sizes: "int64 list")

text \<open>
  Modelled from the spec: the enumeration behind \<open>enable_xla_sharding()\<close> is declared in
  the protocol description, of which the source names the value \<open>ALLOWED\<close> only. The
  specification gives it three states: disallowed, allowed and unspecified-default.
\<close>

datatype EnableXlaSharding = DISALLOWED | ALLOWED | UNSPECIFIED

text \<open>
  \<open>dtype()\<close> returns a value of the enumeration \<open>DataType\<close>, which is declared in the
  protocol description of the tensor types, outside this file. A value is modelled by
  its number, which is what \<open>absl::StrAppend\<close> writes for an enumeration value. In that
  enumeration \<open>DT_FLOAT\<close>, the 32-bit floating point type, has the number 1 and
  \<open>DT_INT32\<close> the number 3.
\<close>

type_synonym DataType = int32

definition DT_FLOAT :: DataType where
  "DT_FLOAT = 1"

definition DT_INT32 :: DataType where
  "DT_INT32 = 3"

text \<open>
  One entry of \<open>metadata.args()\<close>, with the accessors the source reads. An absent
  \<open>shape\<close> (\<open>has_shape()\<close> false) is \<open>None\<close>; a present one is the list of its
  \<open>dim.size()\<close> values.
\<close>

record Arg =
  is_same_data_across_replicas :: bool
  enable_xla_sharding :: EnableXlaSharding
  unrestricted_layout :: bool
  dtype :: DataType
  shape :: "int64 list option"

datatype ComputationDevice = ComputationDevice (replica_device_ids: "int32 list")

datatype DeviceAssignmentProto =
  DeviceAssignmentProto (computation_devices: "ComputationDevice list")

text \<open>
  The metadata, with the accessors the source reads. An absent device assignment
  (\<open>has_device_assignment()\<close> false) is \<open>None\<close>.
\<close>

record TPUCompileMetadataProto =
  args :: "Arg list"
  device_assignment :: "DeviceAssignmentProto option"
  num_cores_per_replica :: int32
  num_replicas :: int32
  session_handle :: string
  guaranteed_const_fingerprint :: string

datatype TpuMeshStateInterface = TpuMeshStateInterface (data: nat)

text \<open>
  An \<open>OpInputList\<close> gives access to a run of inputs of a kernel: \<open>size()\<close> is their number
  and \<open>operator[]\<close> returns a reference to the tensor of the input with that index. It
  does not say that the tensors lie one after the other in memory. \<open>tensors\<close> are the
  tensors of the list in order; \<open>behind_first\<close> is what the memory behind the first
  tensor holds, read as tensors, which is what indexing from the address of the first
  tensor reaches.
\<close>

datatype OpInputList = OpInputList (tensors: "Tensor list") (behind_first: "Tensor list")

subsection \<open>The native compile API and the world it acts on\<close>

text \<open>
  The aggregate passed to \<open>TpuCompile_CreateCompilationCacheKey\<close>. The source fills it
  by position; the field names here follow the order of the initialiser. The character
  pointers obtained with \<open>data()\<close> are modelled by the C string they point to, the
  characters up to the next NUL byte.
\<close>

record CompilationCacheKeyProperty =
  p_config_prefix :: string
  p_shapes_prefix :: string
  p_function_name :: string
  p_mlir_module :: string
  p_device_ids :: "int32 list"
  p_device_ids_size :: nat
  p_guaranteed_constants_size :: nat
  p_function_library_fingerprint :: uint64
  p_num_cores_per_replica :: int32
  p_num_replicas :: int32
  p_mesh_state :: nat

text \<open>
  The structure the native call returns: two character pointers into buffers that the
  native library owns until \<open>TpuCompile_DestroyCompilationCacheKey\<close> is called on it.
\<close>

record CompilationCacheKeyResult =
  key :: nat
  debug_string :: nat

text \<open>
  The entries of the call log: a call of each of the three functions of the native API
  with its arguments, and the start of a run of \<open>GuaranteedConstFingerprint\<close>. The log
  is there to state how often and in which order calls happen; no function reads it.
\<close>

datatype event =
    CallCreateCompilationCacheKey CompilationCacheKeyProperty
  | CallDestroyCompilationCacheKey CompilationCacheKeyResult
  | CallCreateGuaranteedConstFingerprint uint64 "byte list"
  | CallGuaranteedConstFingerprint

text \<open>
  What a call can observe or change outside its arguments: the hidden state of the
  native library, the character buffers the library has handed out and not yet taken
  back, the next free buffer address, and the log of the calls made so far.
\<close>

record 'w world =
  native_state :: 'w
  buffers :: "nat \<rightharpoonup> string"
  next_buffer :: nat
  trace :: "event list"

text \<open>
  Undefined behaviour and exceptions, as values: a read through the null pointer, past
  an array or of a released buffer, the call of an empty \<open>std::function\<close>, and
  \<open>std::bad_alloc\<close>.
\<close>

datatype fault = NullPointer | OutOfRange | FreedBuffer | BadFunctionCall | BadAlloc

text \<open>
  Modelled from the spec: \<open>TpuCompile_CreateCompilationCacheKey\<close> is declared in
  \<open>tpu_compile_c_api.h\<close> and implemented outside this repository. The specification
  treats it as a black box that yields a prefix and a debug string in temporary buffers
  which need an explicit release. Its text-producing part is the parameter \<open>native\<close>,
  which may read and change the hidden state of the library; the two texts are placed
  in fresh buffers.
\<close>

definition TpuCompile_CreateCompilationCacheKey ::
  "('w \<Rightarrow> CompilationCacheKeyProperty \<Rightarrow> (string \<times> string) \<times> 'w) \<Rightarrow>
   CompilationCacheKeyProperty \<Rightarrow> 'w world \<Rightarrow> CompilationCacheKeyResult \<times> 'w world" where
  "TpuCompile_CreateCompilationCacheKey native property w =
     (case native (native_state w) property of
        ((k, d), s) \<Rightarrow>
          (\<lparr>key = next_buffer w, debug_string = Suc (next_buffer w)\<rparr>,
           w\<lparr>native_state := s,
             buffers := (buffers w)(next_buffer w \<mapsto> k, Suc (next_buffer w) \<mapsto> d),
             next_buffer := Suc (Suc (next_buffer w)),
             trace := trace w @ [CallCreateCompilationCacheKey property]\<rparr>))"

text \<open>
  Modelled from the spec: \<open>TpuCompile_DestroyCompilationCacheKey\<close>, declared in the same
  header, releases the two buffers of a result.
\<close>

definition TpuCompile_DestroyCompilationCacheKey ::
  "CompilationCacheKeyResult \<Rightarrow> 'w world \<Rightarrow> 'w world" where
  "TpuCompile_DestroyCompilationCacheKey result w =
     w\<lparr>buffers := (buffers w)(key result := None, debug_string result := None),
       trace := trace w @ [CallDestroyCompilationCacheKey result]\<rparr>"

text \<open>
  Constructing a \<open>std::string\<close> from a character pointer copies the text of the buffer
  into memory of its own. On a released buffer the read is undefined behaviour, here the
  fault \<open>FreedBuffer\<close>; when there is no \<open>room\<close> for the copy, \<open>std::bad_alloc\<close> is thrown.
\<close>

definition string_from_buffer :: "bool \<Rightarrow> 'w world \<Rightarrow> nat \<Rightarrow> fault + string" where
  "string_from_buffer room w a =
     (case buffers w a of
        None \<Rightarrow> Inl FreedBuffer
      | Some s \<Rightarrow> if room then Inr s else Inl BadAlloc)"

text \<open>
  Reading \<open>guaranteed_constants[i]\<close>: a \<open>const Tensor*\<close> is \<open>None\<close> for the null pointer
  and otherwise the array it points into; reading through the null pointer or past the
  array is undefined behaviour, here a fault.
\<close>

definition tensor_at :: "Tensor list option \<Rightarrow> nat \<Rightarrow> fault + Tensor" where
  "tensor_at guaranteed_constants i =
     (case guaranteed_constants of
        None \<Rightarrow> Inl NullPointer
      | Some ts \<Rightarrow> if i < length ts then Inr (ts ! i) else Inl OutOfRange)"

subsection \<open>GuaranteedConstFingerprint\<close>

text \<open>
  The loop of lines 32 to 37, from index \<open>i\<close> with the accumulator \<open>fingerprint\<close>. The
  rolling hash \<open>TpuCompile_CreateGuaranteedConstFingerprint\<close> is the parameter \<open>hash\<close>,
  applied to the accumulator and the bytes of the tensor; each call is logged.
\<close>

function fingerprint_loop ::
  "(uint64 \<Rightarrow> byte list \<Rightarrow> uint64) \<Rightarrow> Tensor list option \<Rightarrow> nat \<Rightarrow> nat \<Rightarrow> uint64 \<Rightarrow>
   'w world \<Rightarrow> (fault + uint64) \<times> 'w world" where
  "fingerprint_loop hash guaranteed_constants guaranteed_constants_size i fingerprint w =
     (if i < guaranteed_constants_size then
        (case tensor_at guaranteed_constants i of
           Inl e \<Rightarrow> (Inl e, w)
         | Inr constant \<Rightarrow>
             fingerprint_loop hash guaranteed_constants guaranteed_constants_size (Suc i)
               (hash fingerprint (tensor_data constant))
               (w\<lparr>trace := trace w @
                   [CallCreateGuaranteedConstFingerprint fingerprint (tensor_data constant)]\<rparr>))
      else (Inr fingerprint, w))"
  by pat_completeness auto
termination
  by (relation "measure (\<lambda>(hash, gc, n, i, fp, w). n - i)") auto

declare fingerprint_loop.simps [simp del]

text \<open>
  Lines 27-42. The run is logged on entry; with a fingerprint in the metadata that text
  is returned, otherwise the loop runs from index 0 and accumulator 0 and its result is
  written in decimal.
\<close>

definition GuaranteedConstFingerprint ::
  "(uint64 \<Rightarrow> byte list \<Rightarrow> uint64) \<Rightarrow> string \<Rightarrow> Tensor list option \<Rightarrow> nat \<Rightarrow>
   'w world \<Rightarrow> (fault + string) \<times> 'w world" where
  "GuaranteedConstFingerprint hash fingerprint_in_metadata guaranteed_constants
       guaranteed_constants_size w =
     (let w0 = w\<lparr>trace := trace w @ [CallGuaranteedConstFingerprint]\<rparr> in
      if fingerprint_in_metadata = [] then
        (case fingerprint_loop hash guaranteed_constants guaranteed_constants_size 0 0 w0 of
           (Inl e, w1) \<Rightarrow> (Inl e, w1)
         | (Inr fingerprint, w1) \<Rightarrow> (Inr (to_string fingerprint), w1))
      else (Inr fingerprint_in_metadata, w0))"

subsection \<open>CreateShapePrefix and CreateConfigPrefix\<close>

text \<open>Appending the dimension sizes, each followed by a comma (lines 48-50 and 80-82).\<close>

definition append_dims :: "string \<Rightarrow> int64 list \<Rightarrow> string" where
  "append_dims p sizes = foldl (\<lambda>q size. q @ AlphaNum size @ '','') p sizes"

definition CreateShapePrefix :: "TensorShape list \<Rightarrow> string" where
  "CreateShapePrefix dynamic_shapes =
     foldl (\<lambda>shapes_prefix shape. append_dims shapes_prefix (dim_sizes shape) @ '';'')
       [] dynamic_shapes"

text \<open>The body of the loop over \<open>metadata.args()\<close> (lines 61-84).\<close>

definition append_arg :: "string \<Rightarrow> Arg \<Rightarrow> string" where
  "append_arg config_prefix arg =
     (let p1 = (if is_same_data_across_replicas arg then config_prefix @ '':s''
                else config_prefix @ '':'');
          p2 = (if enable_xla_sharding arg = ALLOWED then p1 @ ''e'' else p1);
          p3 = (if unrestricted_layout arg then p2 @ '':u'' else p2);
          p4 = p3 @ '',type('' @ AlphaNum (dtype arg) @ '')''
      in case shape arg of
           None \<Rightarrow> p4
         | Some dims \<Rightarrow> append_dims (p4 @ '',shape('') dims @ '')'')"

definition CreateConfigPrefix :: "TPUCompileMetadataProto \<Rightarrow> string" where
  "CreateConfigPrefix metadata = foldl append_arg [] (args metadata)"

subsection \<open>The key and its deferred fingerprint\<close>

text \<open>
  The lambda stored in \<open>key.guaranteed_const_fingerprint\<close> (lines 143-152), as the values
  it captures: the metadata (by reference), the pointer and the size, and its own
  mutable copy of \<open>fingerprint\<close>.
\<close>

record FingerprintClosure =
  cap_metadata :: TPUCompileMetadataProto
  cap_guaranteed_constants :: "Tensor list option"
  cap_guaranteed_constants_size :: nat
  cap_fingerprint :: string

text \<open>
  Modelled from the spec: the structure \<open>TpuCompilationCacheKey\<close> is declared in another
  file; its fields are those the specification lists for the cache key. An empty
  \<open>std::function\<close> is \<open>None\<close>.
\<close>

record TpuCompilationCacheKey =
  prefix :: string
  debug_string :: string
  has_guaranteed_const :: bool
  session_handle :: string
  guaranteed_const_fingerprint :: "FingerprintClosure option"

text \<open>The default-constructed key of line 129.\<close>

definition default_key :: TpuCompilationCacheKey where
  "default_key =
     \<lparr>prefix = [], debug_string = [], has_guaranteed_const = False, session_handle = [],
      guaranteed_const_fingerprint = None\<rparr>"

text \<open>One invocation of the lambda: the result and the lambda with its updated copy.\<close>

definition call_closure ::
  "(uint64 \<Rightarrow> byte list \<Rightarrow> uint64) \<Rightarrow> FingerprintClosure \<Rightarrow> 'w world \<Rightarrow>
   (fault + string) \<times> FingerprintClosure \<times> 'w world" where
  "call_closure hash c w =
     (if cap_fingerprint c = [] then
        (case GuaranteedConstFingerprint hash
                (TPUCompileMetadataProto.guaranteed_const_fingerprint (cap_metadata c))
                (cap_guaranteed_constants c) (cap_guaranteed_constants_size c) w of
           (Inl e, w1) \<Rightarrow> (Inl e, c, w1)
         | (Inr fp, w1) \<Rightarrow> (Inr fp, c\<lparr>cap_fingerprint := fp\<rparr>, w1))
      else (Inr (cap_fingerprint c), c, w))"

text \<open>
  \<open>key.guaranteed_const_fingerprint()\<close>: invoking an empty \<open>std::function\<close> throws
  \<open>std::bad_function_call\<close>; otherwise the stored lambda runs and keeps its new state.
\<close>

definition invoke_guaranteed_const_fingerprint ::
  "(uint64 \<Rightarrow> byte list \<Rightarrow> uint64) \<Rightarrow> TpuCompilationCacheKey \<Rightarrow> 'w world \<Rightarrow>
   (fault + string) \<times> TpuCompilationCacheKey \<times> 'w world" where
  "invoke_guaranteed_const_fingerprint hash k w =
     (case TpuCompilationCacheKey.guaranteed_const_fingerprint k of
        None \<Rightarrow> (Inl BadFunctionCall, k, w)
      | Some c \<Rightarrow>
          (case call_closure hash c w of
             (r, c1, w1) \<Rightarrow>
               (r, k\<lparr>TpuCompilationCacheKey.guaranteed_const_fingerprint := Some c1\<rparr>, w1)))"

subsection \<open>CreateCompilationCacheKey\<close>

text \<open>Lines 104-112: the replica device ids of all computations, one after the other.\<close>

definition flatten_device_ids :: "TPUCompileMetadataProto \<Rightarrow> int32 list" where
  "flatten_device_ids metadata =
     (case device_assignment metadata of
        None \<Rightarrow> []
      | Some da \<Rightarrow>
          foldl (\<lambda>flattened_device_ids device. flattened_device_ids @ replica_device_ids device)
            [] (computation_devices da))"

text \<open>
  Lines 114-126: the aggregate handed to the native call. The two prefixes are
  \<open>std::string\<close>s, whose \<open>data()\<close> is terminated at their end. \<open>function_name\<close> and
  \<open>mlir_module\<close> are views, of which \<open>data()\<close> is handed over without the length: the
  native call reads each as a C string.
\<close>

definition key_property ::
  "string_view \<Rightarrow> uint64 \<Rightarrow> string_view \<Rightarrow> nat \<Rightarrow> TensorShape list \<Rightarrow> TPUCompileMetadataProto \<Rightarrow>
   TpuMeshStateInterface \<Rightarrow> CompilationCacheKeyProperty" where
  "key_property function_name function_library_fingerprint mlir_module
       guaranteed_constants_size dynamic_shapes metadata mesh_state =
     (let shapes_prefix = CreateShapePrefix dynamic_shapes;
          config_prefix = CreateConfigPrefix metadata;
          flattened_device_ids = flatten_device_ids metadata
      in \<lparr>p_config_prefix = config_prefix,
          p_shapes_prefix = shapes_prefix,
          p_function_name = c_str function_name,
          p_mlir_module = c_str mlir_module,
          p_device_ids = flattened_device_ids,
          p_device_ids_size = length flattened_device_ids,
          p_guaranteed_constants_size = guaranteed_constants_size,
          p_function_library_fingerprint = function_library_fingerprint,
          p_num_cores_per_replica = num_cores_per_replica metadata,
          p_num_replicas = num_replicas metadata,
          p_mesh_state = data mesh_state\<rparr>)"

text \<open>
  Lines 136-152: the three fields set when guaranteed constants are present. The local
  \<open>fingerprint\<close> is empty when the lambda copies it.
\<close>

definition guaranteed_const_fields ::
  "Tensor list option \<Rightarrow> nat \<Rightarrow> TPUCompileMetadataProto \<Rightarrow> TpuCompilationCacheKey \<Rightarrow>
   TpuCompilationCacheKey" where
  "guaranteed_const_fields guaranteed_constants guaranteed_constants_size metadata k =
     k\<lparr>has_guaranteed_const := True,
       TpuCompilationCacheKey.session_handle :=
         TPUCompileMetadataProto.session_handle metadata,
       TpuCompilationCacheKey.guaranteed_const_fingerprint :=
         Some \<lparr>cap_metadata = metadata,
               cap_guaranteed_constants = guaranteed_constants,
               cap_guaranteed_constants_size = guaranteed_constants_size,
               cap_fingerprint = []\<rparr>\<rparr>"

text \<open>
  What follows the native call allocates memory in up to four places, each of which
  throws \<open>std::bad_alloc\<close> when memory is short: the copies of the two texts of the
  result (lines 130 and 131), the copy of the session handle (line 137) and the storage
  of the lambda in the \<open>std::function\<close> (line 143). \<open>memory i\<close> says whether the
  allocation with the number \<open>i\<close>, counted from 0 in that order, succeeds.

  Lines 135-153: the test for guaranteed constants and its branch.
\<close>

definition attach_guaranteed_const ::
  "(nat \<Rightarrow> bool) \<Rightarrow> Tensor list option \<Rightarrow> nat \<Rightarrow> TPUCompileMetadataProto \<Rightarrow>
   TpuCompilationCacheKey \<Rightarrow> fault + TpuCompilationCacheKey" where
  "attach_guaranteed_const memory guaranteed_constants guaranteed_constants_size metadata k =
     (if guaranteed_constants \<noteq> None \<and> guaranteed_constants_size > 0 then
        if memory 2 \<and> memory 3 then
          Inr (guaranteed_const_fields guaranteed_constants guaranteed_constants_size
                 metadata k)
        else Inl BadAlloc
      else Inr k)"

text \<open>Lines 129-154: the key is built from the result of the native call.\<close>

definition assemble_key ::
  "(nat \<Rightarrow> bool) \<Rightarrow> CompilationCacheKeyResult \<Rightarrow> Tensor list option \<Rightarrow> nat \<Rightarrow>
   TPUCompileMetadataProto \<Rightarrow> 'w world \<Rightarrow> fault + TpuCompilationCacheKey" where
  "assemble_key memory result guaranteed_constants guaranteed_constants_size metadata w =
     (case string_from_buffer (memory 0) w (key result) of
        Inl e \<Rightarrow> Inl e
      | Inr k \<Rightarrow>
          (case string_from_buffer (memory 1) w
                  (CompilationCacheKeyResult.debug_string result) of
             Inl e \<Rightarrow> Inl e
           | Inr d \<Rightarrow>
               attach_guaranteed_const memory guaranteed_constants guaranteed_constants_size
                 metadata
                 (default_key\<lparr>prefix := k, TpuCompilationCacheKey.debug_string := d\<rparr>)))"

text \<open>
  The pointer and length form (lines 92-155), in a memory that may run short. The
  cleanup object of line 127 is a local of the function: its destructor runs when the
  scope is left, by the \<open>return\<close> or by an exception that passes through, and calls
  \<open>TpuCompile_DestroyCompilationCacheKey\<close> on the result. What is allocated before the
  native call is not followed here: no result is held then.
\<close>

definition CreateCompilationCacheKey_alloc ::
  "(nat \<Rightarrow> bool) \<Rightarrow> ('w \<Rightarrow> CompilationCacheKeyProperty \<Rightarrow> (string \<times> string) \<times> 'w) \<Rightarrow>
   string_view \<Rightarrow> uint64 \<Rightarrow> string_view \<Rightarrow> Tensor list option \<Rightarrow> nat \<Rightarrow>
   TensorShape list \<Rightarrow> TPUCompileMetadataProto \<Rightarrow> TpuMeshStateInterface \<Rightarrow> 'w world \<Rightarrow>
   (fault + TpuCompilationCacheKey) \<times> 'w world" where
  "CreateCompilationCacheKey_alloc memory native function_name function_library_fingerprint
       mlir_module guaranteed_constants guaranteed_constants_size dynamic_shapes metadata
       mesh_state w =
     (case TpuCompile_CreateCompilationCacheKey native
             (key_property function_name function_library_fingerprint mlir_module
                guaranteed_constants_size dynamic_shapes metadata mesh_state) w of
        (result, w1) \<Rightarrow>
          (assemble_key memory result guaranteed_constants guaranteed_constants_size
             metadata w1,
           TpuCompile_DestroyCompilationCacheKey result w1))"

text \<open>
  The same function where memory does not run short. The properties of the key that is
  returned are stated for it.
\<close>

definition CreateCompilationCacheKey ::
  "('w \<Rightarrow> CompilationCacheKeyProperty \<Rightarrow> (string \<times> string) \<times> 'w) \<Rightarrow>
   string_view \<Rightarrow> uint64 \<Rightarrow> string_view \<Rightarrow> Tensor list option \<Rightarrow> nat \<Rightarrow>
   TensorShape list \<Rightarrow> TPUCompileMetadataProto \<Rightarrow> TpuMeshStateInterface \<Rightarrow> 'w world \<Rightarrow>
   (fault + TpuCompilationCacheKey) \<times> 'w world" where
  "CreateCompilationCacheKey native function_name function_library_fingerprint mlir_module
       guaranteed_constants guaranteed_constants_size dynamic_shapes metadata mesh_state w =
     CreateCompilationCacheKey_alloc (\<lambda>i. True) native function_name
       function_library_fingerprint mlir_module guaranteed_constants
       guaranteed_constants_size dynamic_shapes metadata mesh_state w"

text \<open>
  The \<open>OpInputList\<close> form (lines 157-167). \<open>&guaranteed_constants[0]\<close> is the address of
  the first tensor of the list; the pointer and length form indexes from that address
  (line 33), and so reaches the first tensor and then what lies behind it in memory.
\<close>

definition CreateCompilationCacheKey_OpInputList ::
  "('w \<Rightarrow> CompilationCacheKeyProperty \<Rightarrow> (string \<times> string) \<times> 'w) \<Rightarrow>
   string_view \<Rightarrow> uint64 \<Rightarrow> string_view \<Rightarrow> OpInputList \<Rightarrow> TensorShape list \<Rightarrow>
   TPUCompileMetadataProto \<Rightarrow> TpuMeshStateInterface \<Rightarrow> 'w world \<Rightarrow>
   (fault + TpuCompilationCacheKey) \<times> 'w world" where
  "CreateCompilationCacheKey_OpInputList native function_name function_library_fingerprint
       mlir_module guaranteed_constants dynamic_shapes metadata mesh_state w =
     CreateCompilationCacheKey native function_name function_library_fingerprint mlir_module
       (if length (tensors guaranteed_constants) > 0
        then Some (tensors guaranteed_constants ! 0 # behind_first guaranteed_constants)
        else None)
       (length (tensors guaranteed_constants)) dynamic_shapes metadata mesh_state w"

subsection \<open>Vocabulary of the properties\<close>

text \<open>
  Two argument configurations differ in exactly one field: of the five fields that
  \<open>CreateConfigPrefix\<close> reads, one has different values and the other four agree.
\<close>

definition differ_in_one_field :: "Arg \<Rightarrow> Arg \<Rightarrow> bool" where
  "differ_in_one_field a b =
     (length (filter id
        [is_same_data_across_replicas a \<noteq> is_same_data_across_replicas b,
         enable_xla_sharding a \<noteq> enable_xla_sharding b,
         unrestricted_layout a \<noteq> unrestricted_layout b,
         dtype a \<noteq> dtype b,
         shape a \<noteq> shape b]) = 1)"

text \<open>
  The calls of the rolling hash that folding it over a list of tensors makes, from the
  accumulator \<open>acc\<close>, in order.
\<close>

fun rolling_hash_calls :: "(uint64 \<Rightarrow> byte list \<Rightarrow> uint64) \<Rightarrow> uint64 \<Rightarrow> Tensor list \<Rightarrow> event list" where
  "rolling_hash_calls hash acc [] = []"
| "rolling_hash_calls hash acc (t # ts) =
     CallCreateGuaranteedConstFingerprint acc (tensor_data t) #
     rolling_hash_calls hash (hash acc (tensor_data t)) ts"

text \<open>How often a log records a call of the rolling hash, and a run of
  \<open>GuaranteedConstFingerprint\<close>.\<close>

fun is_hash_call :: "event \<Rightarrow> bool" where
  "is_hash_call (CallCreateGuaranteedConstFingerprint acc bytes) = True"
| "is_hash_call e = False"

definition hash_calls :: "event list \<Rightarrow> nat" where
  "hash_calls tr = length (filter is_hash_call tr)"

definition fingerprint_runs :: "event list \<Rightarrow> nat" where
  "fingerprint_runs tr = length (filter (\<lambda>e. e = CallGuaranteedConstFingerprint) tr)"

text \<open>How often a log records a release of a result of the native call.\<close>

fun is_release_call :: "event \<Rightarrow> bool" where
  "is_release_call (CallDestroyCompilationCacheKey r) = True"
| "is_release_call e = False"

definition release_calls :: "event list \<Rightarrow> nat" where
  "release_calls tr = length (filter is_release_call tr)"


subsection \<open>Sample inputs\<close>

text \<open>
  Concrete inputs at which the properties below are evaluated: a native key construction
  that builds its text from the function name and the two prefixes and counts its calls
  in its hidden state, a second one whose text is the number of constants, a rolling
  hash, an empty world, and a metadata record with one argument.
\<close>

definition sample_native :: "nat \<Rightarrow> CompilationCacheKeyProperty \<Rightarrow> (string \<times> string) \<times> nat" where
  "sample_native s p =
     ((p_function_name p @ p_config_prefix p @ p_shapes_prefix p, ''debug''), Suc s)"


definition sample_hash :: "uint64 \<Rightarrow> byte list \<Rightarrow> uint64" where
  "sample_hash fp bytes = 31 * fp + of_nat (length bytes)"

definition sample_world :: "nat world" where
  "sample_world = \<lparr>native_state = 0, buffers = Map.empty, next_buffer = 0, trace = []\<rparr>"

definition sample_metadata :: TPUCompileMetadataProto where
  "sample_metadata =
     \<lparr>args = [\<lparr>is_same_data_across_replicas = False, enable_xla_sharding = UNSPECIFIED,
               unrestricted_layout = False, dtype = DT_INT32, shape = None\<rparr>],
      device_assignment = None, num_cores_per_replica = 1, num_replicas = 1,
      session_handle = ''session'', guaranteed_const_fingerprint = []\<rparr>"

section \<open>Decimal text\<close>

lemma digit_char_mem: "d < 10 \<Longrightarrow> digit_char d \<in> set ''0123456789''"
  unfolding digit_char_def by (rule nth_mem) simp

lemma digit_char_inj: "d < 10 \<Longrightarrow> e < 10 \<Longrightarrow> digit_char d = digit_char e \<Longrightarrow> d = e"
  unfolding digit_char_def by (subst (asm) nth_eq_iff_index_eq) simp_all

lemma nat_digits_nonempty: "nat_digits n \<noteq> []"
  by (subst nat_digits.simps) simp

lemma nat_digits_chars: "set (nat_digits n) \<subseteq> set ''0123456789''"
proof (induction n rule: nat_digits.induct)
  case (1 n)
  show ?case
  proof (cases "n < 10")
    case True
    then show ?thesis
      using digit_char_mem [of n] by (subst nat_digits.simps) simp
  next
    case False
    have "n mod 10 < 10" by simp
    then have "digit_char (n mod 10) \<in> set ''0123456789''" by (rule digit_char_mem)
    with False "1.IH" show ?thesis
      by (subst nat_digits.simps) simp
  qed
qed

lemma nat_digits_length_ge2: "\<not> n < 10 \<Longrightarrow> 2 \<le> length (nat_digits n)"
proof -
  assume "\<not> n < 10"
  moreover have "1 \<le> length (nat_digits (n div 10))"
    using nat_digits_nonempty [of "n div 10"] by (cases "nat_digits (n div 10)") simp_all
  ultimately show ?thesis by (subst nat_digits.simps) simp
qed

lemma nat_digits_inj: "nat_digits a = nat_digits b \<Longrightarrow> a = b"
proof (induction a arbitrary: b rule: nat_digits.induct)
  case (1 n)
  show ?case
  proof (cases "n < 10")
    case True
    then have ln: "length (nat_digits n) = 1" by (subst nat_digits.simps) simp
    have "b < 10"
    proof (rule ccontr)
      assume "\<not> b < 10"
      then have "2 \<le> length (nat_digits b)" by (rule nat_digits_length_ge2)
      with ln "1.prems" show False by simp
    qed
    with True "1.prems" show ?thesis
      by (simp add: nat_digits.simps [of n] nat_digits.simps [of b] digit_char_inj)
  next
    case False
    have "\<not> b < 10"
    proof
      assume "b < 10"
      then have "length (nat_digits b) = 1" by (subst nat_digits.simps) simp
      moreover from False have "2 \<le> length (nat_digits n)" by (rule nat_digits_length_ge2)
      ultimately show False using "1.prems" by simp
    qed
    with False "1.prems"
    have eq: "nat_digits (n div 10) @ [digit_char (n mod 10)] =
              nat_digits (b div 10) @ [digit_char (b mod 10)]"
      by (simp add: nat_digits.simps [of n] nat_digits.simps [of b])
    then have "nat_digits (n div 10) = nat_digits (b div 10)"
      and "digit_char (n mod 10) = digit_char (b mod 10)" by simp_all
    then have "n div 10 = b div 10" and "n mod 10 = b mod 10"
      using "1.IH" [OF False] digit_char_inj [of "n mod 10" "b mod 10"] by simp_all
    then show ?thesis by (metis div_mult_mod_eq)
  qed
qed

lemma AlphaNum_nonempty: "AlphaNum v \<noteq> []"
  by (simp add: AlphaNum_def nat_digits_nonempty)

lemma AlphaNum_negative: "sint v < 0 \<Longrightarrow> AlphaNum v = CHR ''-'' # nat_digits (nat (- sint v))"
  unfolding AlphaNum_def by (rule if_P)
lemma AlphaNum_nonnegative: "\<not> sint v < 0 \<Longrightarrow> AlphaNum v = nat_digits (nat (sint v))"
  unfolding AlphaNum_def by (rule if_not_P)

lemma nat_digits_no_minus: "CHR ''-'' # s \<noteq> nat_digits m"
proof
  assume "CHR ''-'' # s = nat_digits m"
  then have "CHR ''-'' \<in> set (nat_digits m)" by (metis list.set_intros(1))
  with nat_digits_chars [of m] show False by auto
qed

lemma AlphaNum_chars: "c \<in> set (AlphaNum v) \<Longrightarrow> c = CHR ''-'' \<or> c \<in> set ''0123456789''"
proof (cases "sint v < 0")
  case True
  assume "c \<in> set (AlphaNum v)"
  then have "c = CHR ''-'' \<or> c \<in> set (nat_digits (nat (- sint v)))"
    by (simp only: AlphaNum_negative [OF True] set_ConsD list.set insert_iff)
  with nat_digits_chars [of "nat (- sint v)"] show ?thesis by blast
next
  case False
  assume "c \<in> set (AlphaNum v)"
  then have "c \<in> set (nat_digits (nat (sint v)))" by (simp only: AlphaNum_nonnegative [OF False])
  with nat_digits_chars [of "nat (sint v)"] show ?thesis by blast
qed

lemma AlphaNum_no_separator:
  "CHR '','' \<notin> set (AlphaNum v)" "CHR '';'' \<notin> set (AlphaNum v)" "CHR '')'' \<notin> set (AlphaNum v)"
  using AlphaNum_chars [of "CHR '',''" v] AlphaNum_chars [of "CHR '';''" v]
    AlphaNum_chars [of "CHR '')''" v] by auto

lemma AlphaNum_inj: "AlphaNum u = AlphaNum v \<Longrightarrow> u = v"
proof -
  assume eq: "AlphaNum u = AlphaNum v"
  have "sint u = sint v"
  proof (cases "sint u < 0"; cases "sint v < 0")
    assume a: "sint u < 0" "sint v < 0"
    from eq have "CHR ''-'' # nat_digits (nat (- sint u)) = CHR ''-'' # nat_digits (nat (- sint v))"
      by (simp only: AlphaNum_negative [OF a(1)] AlphaNum_negative [OF a(2)])
    then have "nat_digits (nat (- sint u)) = nat_digits (nat (- sint v))"
      by (simp only: list.inject)
    then have "nat (- sint u) = nat (- sint v)" by (rule nat_digits_inj)
    with a show ?thesis by linarith
  next
    assume a: "sint u < 0" "\<not> sint v < 0"
    from eq have "CHR ''-'' # nat_digits (nat (- sint u)) = nat_digits (nat (sint v))"
      by (simp only: AlphaNum_negative [OF a(1)] AlphaNum_nonnegative [OF a(2)])
    with nat_digits_no_minus show ?thesis by blast
  next
    assume a: "\<not> sint u < 0" "sint v < 0"
    from eq have "CHR ''-'' # nat_digits (nat (- sint v)) = nat_digits (nat (sint u))"
      by (simp only: AlphaNum_nonnegative [OF a(1)] AlphaNum_negative [OF a(2)])
    with nat_digits_no_minus show ?thesis by blast
  next
    assume a: "\<not> sint u < 0" "\<not> sint v < 0"
    from eq have "nat_digits (nat (sint u)) = nat_digits (nat (sint v))"
      by (simp only: AlphaNum_nonnegative [OF a(1)] AlphaNum_nonnegative [OF a(2)])
    then have "nat (sint u) = nat (sint v)" by (rule nat_digits_inj)
    with a show ?thesis by linarith
  qed
  then show "u = v" by (rule signed_word_eqI)
qed

section \<open>Dimension lists\<close>

lemma split_at_separator:
  "c \<notin> set s \<Longrightarrow> c \<notin> set t \<Longrightarrow> s @ c # r = t @ c # r' \<Longrightarrow> s = t \<and> r = r'"
proof (induction s arbitrary: t)
  case Nil
  then show ?case by (cases t) auto
next
  case (Cons x s)
  then show ?case by (cases t) auto
qed

lemma append_dims_acc: "append_dims p sizes = p @ append_dims [] sizes"
proof (induction sizes arbitrary: p)
  case Nil
  show ?case by (simp add: append_dims_def)
next
  case (Cons d ds)
  have "append_dims p (d # ds) = append_dims (p @ AlphaNum d @ '','') ds"
    by (simp add: append_dims_def)
  also have "\<dots> = (p @ AlphaNum d @ '','') @ append_dims [] ds" by (rule Cons.IH)
  also have "append_dims [] (d # ds) = append_dims (AlphaNum d @ '','') ds"
    by (simp add: append_dims_def)
  then have "(p @ AlphaNum d @ '','') @ append_dims [] ds = p @ append_dims [] (d # ds)"
    using Cons.IH [of "AlphaNum d @ '',''"] by simp
  finally show ?case .
qed

lemma append_dims_Nil: "append_dims p [] = p"
  by (simp add: append_dims_def)

lemma append_dims_Cons:
  "append_dims [] (d # ds) = AlphaNum d @ CHR '','' # append_dims [] ds"
proof -
  have "append_dims [] (d # ds) = append_dims (AlphaNum d @ '','') ds"
    by (simp add: append_dims_def)
  then show ?thesis using append_dims_acc [of "AlphaNum d @ '',''" ds] by simp
qed

lemma append_dims_terminated_inj:
  assumes z: "\<And>v :: int64. z \<notin> set (AlphaNum v)"
  shows "append_dims [] ds @ z # r = append_dims [] es @ z # r' \<Longrightarrow> ds = es \<and> r = r'"
proof (induction ds arbitrary: es)
  case Nil
  show ?case
  proof (cases es)
    case Nil
    with Nil.prems show ?thesis by (simp add: append_dims_Nil)
  next
    case (Cons e es')
    obtain c cs where "AlphaNum e = c # cs"
      using AlphaNum_nonempty [of e] by (cases "AlphaNum e") auto
    with Nil.prems Cons have "z = c" by (simp add: append_dims_Nil append_dims_Cons)
    with z [of e] \<open>AlphaNum e = c # cs\<close> show ?thesis by simp
  qed
next
  case (Cons d ds')
  show ?case
  proof (cases es)
    case Nil
    obtain c cs where "AlphaNum d = c # cs"
      using AlphaNum_nonempty [of d] by (cases "AlphaNum d") auto
    with Cons.prems Nil have "z = c" by (simp add: append_dims_Nil append_dims_Cons)
    with z [of d] \<open>AlphaNum d = c # cs\<close> show ?thesis by simp
  next
    case (Cons e es')
    with Cons.prems
    have "AlphaNum d @ CHR '','' # (append_dims [] ds' @ z # r) =
          AlphaNum e @ CHR '','' # (append_dims [] es' @ z # r')"
      by (simp add: append_dims_Cons)
    then have "AlphaNum d = AlphaNum e"
      and rest: "append_dims [] ds' @ z # r = append_dims [] es' @ z # r'"
      using split_at_separator [OF AlphaNum_no_separator(1) AlphaNum_no_separator(1)] by blast+
    then have "d = e" by (simp add: AlphaNum_inj)
    with Cons.IH [OF rest] Cons show ?thesis by simp
  qed
qed

lemma append_dims_inj: "append_dims [] ds = append_dims [] es \<Longrightarrow> ds = es"
proof -
  assume "append_dims [] ds = append_dims [] es"
  then have "append_dims [] ds @ CHR '';'' # [] = append_dims [] es @ CHR '';'' # []" by simp
  then show ?thesis
    using append_dims_terminated_inj [of "CHR '';''" ds "[]" es "[]"] AlphaNum_no_separator(2)
    by blast
qed

section \<open>CreateShapePrefix\<close>

lemma shape_loop_acc:
  "foldl (\<lambda>shapes_prefix shape. append_dims shapes_prefix (dim_sizes shape) @ '';'') p shapes =
   p @ CreateShapePrefix shapes"
proof (induction shapes arbitrary: p)
  case Nil
  show ?case by (simp add: CreateShapePrefix_def)
next
  case (Cons s ss)
  let ?f = "\<lambda>shapes_prefix shape. append_dims shapes_prefix (dim_sizes shape) @ '';''"
  have "foldl ?f p (s # ss) = foldl ?f (append_dims p (dim_sizes s) @ '';'') ss" by simp
  also have "\<dots> = (append_dims p (dim_sizes s) @ '';'') @ CreateShapePrefix ss"
    by (rule Cons.IH)
  also have "\<dots> = p @ (append_dims [] (dim_sizes s) @ '';'') @ CreateShapePrefix ss"
    using append_dims_acc [of p "dim_sizes s"] by simp
  also have "(append_dims [] (dim_sizes s) @ '';'') @ CreateShapePrefix ss =
             foldl ?f (append_dims [] (dim_sizes s) @ '';'') ss"
    by (rule Cons.IH [symmetric])
  also have "\<dots> = CreateShapePrefix (s # ss)"
    unfolding CreateShapePrefix_def by simp
  finally show ?case .
qed

lemma CreateShapePrefix_Nil: "CreateShapePrefix [] = []"
  by (simp add: CreateShapePrefix_def)

lemma CreateShapePrefix_Cons:
  "CreateShapePrefix (s # ss) =
   append_dims [] (dim_sizes s) @ CHR '';'' # CreateShapePrefix ss"
  using shape_loop_acc [of "append_dims [] (dim_sizes s) @ '';''" ss]
  by (simp add: CreateShapePrefix_def)

lemma CreateShapePrefix_inj:
  "CreateShapePrefix xs = CreateShapePrefix ys \<Longrightarrow> xs = ys"
proof (induction xs arbitrary: ys)
  case Nil
  then show ?case by (cases ys) (simp_all add: CreateShapePrefix_Nil CreateShapePrefix_Cons)
next
  case (Cons x xs')
  show ?case
  proof (cases ys)
    case Nil
    with Cons.prems show ?thesis by (simp add: CreateShapePrefix_Nil CreateShapePrefix_Cons)
  next
    case (Cons y ys')
    with Cons.prems
    have "append_dims [] (dim_sizes x) @ CHR '';'' # CreateShapePrefix xs' =
          append_dims [] (dim_sizes y) @ CHR '';'' # CreateShapePrefix ys'"
      by (simp add: CreateShapePrefix_Cons)
    then have "dim_sizes x = dim_sizes y" and "CreateShapePrefix xs' = CreateShapePrefix ys'"
      using append_dims_terminated_inj [of "CHR '';''"] AlphaNum_no_separator(2) by blast+
    then have "x = y" and "xs' = ys'"
      using Cons.IH by (simp_all add: TensorShape.expand)
    with Cons show ?thesis by simp
  qed
qed

text \<open>
  Claim C2. Two sequences of shapes get the same text from \<open>CreateShapePrefix\<close> exactly
  when they have the same length and, position by position, the same dimension sizes in
  the same order, that is when their lists of dimension lists are equal. Each shape is
  written as its sizes, every one followed by a comma, and then a semicolon: the
  sequence of the one shape 2,3 gives \<open>2,3,;\<close>, that shape followed by the shape without
  dimensions gives \<open>2,3,;;\<close>, and the empty sequence gives the empty text.
\<close>

theorem CreateShapePrefix_same_iff:
  "(CreateShapePrefix xs = CreateShapePrefix ys \<longleftrightarrow> map dim_sizes xs = map dim_sizes ys) \<and>
   CreateShapePrefix [TensorShape [2, 3]] = ''2,3,;'' \<and>
   CreateShapePrefix [TensorShape [2, 3], TensorShape []] = ''2,3,;;'' \<and>
   CreateShapePrefix [] = ''''"
proof -
  have "inj dim_sizes" by (rule injI) (simp add: TensorShape.expand)
  then have "map dim_sizes xs = map dim_sizes ys \<Longrightarrow> xs = ys"
    by simp
  then have "CreateShapePrefix xs = CreateShapePrefix ys \<longleftrightarrow> map dim_sizes xs = map dim_sizes ys"
    using CreateShapePrefix_inj [of xs ys] by auto
  moreover have "CreateShapePrefix [TensorShape [2, 3]] = ''2,3,;''" by code_simp
  moreover have "CreateShapePrefix [TensorShape [2, 3], TensorShape []] = ''2,3,;;''" by code_simp
  moreover have "CreateShapePrefix [] = ''''" by (simp add: CreateShapePrefix_Nil)
  ultimately show ?thesis by blast
qed

theorem CreateShapePrefix_same_iff_witness:
  "CreateShapePrefix [TensorShape [2, 3]] \<noteq> CreateShapePrefix [TensorShape [2], TensorShape [3]]"
proof -
  have "map dim_sizes [TensorShape [2, 3]] \<noteq> map dim_sizes [TensorShape [2], TensorShape [3]]"
    by simp
  with CreateShapePrefix_same_iff [of "[TensorShape [2, 3]]" "[TensorShape [2], TensorShape [3]]"]
  show ?thesis by blast
qed

section \<open>CreateConfigPrefix\<close>

lemma append_arg_text:
  "append_arg p a =
     p @ (if is_same_data_across_replicas a then '':s'' else '':'') @
     (if enable_xla_sharding a = ALLOWED then ''e'' else []) @
     (if unrestricted_layout a then '':u'' else []) @
     '',type('' @ AlphaNum (dtype a) @ '')'' @
     (case shape a of None \<Rightarrow> [] | Some dims \<Rightarrow> '',shape('' @ append_dims [] dims @ '')'')"
proof (cases "shape a")
  case None
  then show ?thesis by (simp add: append_arg_def Let_def)
next
  case (Some dims)
  then show ?thesis
    by (simp add: append_arg_def Let_def
        append_dims_acc [of "_ @ '',shape(''" dims] del: append_assoc)
qed

lemma append_arg_acc: "append_arg p a = p @ append_arg [] a"
  by (simp add: append_arg_text [of p] append_arg_text [of "[]"])

lemma config_loop_acc: "foldl append_arg p xs = p @ foldl append_arg [] xs"
proof (induction xs arbitrary: p)
  case Nil
  show ?case by simp
next
  case (Cons a xs)
  have "foldl append_arg p (a # xs) = foldl append_arg (append_arg p a) xs" by simp
  also have "\<dots> = append_arg p a @ foldl append_arg [] xs" by (rule Cons.IH)
  also have "\<dots> = p @ append_arg [] a @ foldl append_arg [] xs"
    using append_arg_acc [of p a] by simp
  also have "append_arg [] a @ foldl append_arg [] xs = foldl append_arg (append_arg [] a) xs"
    by (rule Cons.IH [symmetric])
  finally show ?case by simp
qed

lemma CreateConfigPrefix_split:
  "CreateConfigPrefix (metadata\<lparr>args := xs @ a # ys\<rparr>) =
   CreateConfigPrefix (metadata\<lparr>args := xs\<rparr>) @ append_arg [] a @
   CreateConfigPrefix (metadata\<lparr>args := ys\<rparr>)"
proof -
  have "foldl append_arg [] (xs @ a # ys) =
        foldl append_arg (append_arg (foldl append_arg [] xs) a) ys" by simp
  also have "\<dots> = append_arg (foldl append_arg [] xs) a @ foldl append_arg [] ys"
    by (rule config_loop_acc)
  also have "\<dots> = foldl append_arg [] xs @ append_arg [] a @ foldl append_arg [] ys"
    using append_arg_acc [of "foldl append_arg [] xs" a] by simp
  finally show ?thesis by (simp add: CreateConfigPrefix_def)
qed

lemma CreateConfigPrefix_cancel:
  "CreateConfigPrefix (metadata\<lparr>args := xs @ a # ys\<rparr>) =
   CreateConfigPrefix (metadata\<lparr>args := xs @ b # ys\<rparr>) \<longleftrightarrow>
   append_arg [] a = append_arg [] b"
  by (simp add: CreateConfigPrefix_split)

lemma two_more_neq: "x # y # s \<noteq> s"
proof
  assume "x # y # s = s"
  then have "length (x # y # s) = length s" by (rule arg_cong)
  then show False by simp
qed

lemma append_arg_same_flag:
  assumes "is_same_data_across_replicas a \<noteq> is_same_data_across_replicas b"
    and "enable_xla_sharding a = enable_xla_sharding b"
    and "unrestricted_layout a = unrestricted_layout b"
    and "dtype a = dtype b" and "shape a = shape b"
  shows "append_arg [] a \<noteq> append_arg [] b"
  using assms by (auto simp: append_arg_text [of "[]"])

lemma append_arg_sharding:
  assumes "is_same_data_across_replicas a = is_same_data_across_replicas b"
    and "enable_xla_sharding a \<noteq> enable_xla_sharding b"
    and "unrestricted_layout a = unrestricted_layout b"
    and "dtype a = dtype b" and "shape a = shape b"
  shows "append_arg [] a = append_arg [] b \<longleftrightarrow>
         enable_xla_sharding a \<noteq> ALLOWED \<and> enable_xla_sharding b \<noteq> ALLOWED"
  using assms by (auto simp: append_arg_text [of "[]"])

lemma append_arg_layout:
  assumes "is_same_data_across_replicas a = is_same_data_across_replicas b"
    and "enable_xla_sharding a = enable_xla_sharding b"
    and "unrestricted_layout a \<noteq> unrestricted_layout b"
    and "dtype a = dtype b" and "shape a = shape b"
  shows "append_arg [] a \<noteq> append_arg [] b"
  using assms two_more_neq [of "CHR '':''" "CHR ''u''"] two_more_neq [of "CHR '':''" "CHR ''u''", symmetric]
  by (auto simp: append_arg_text [of "[]"])

lemma append_arg_dtype:
  assumes "is_same_data_across_replicas a = is_same_data_across_replicas b"
    and "enable_xla_sharding a = enable_xla_sharding b"
    and "unrestricted_layout a = unrestricted_layout b"
    and "dtype a \<noteq> dtype b" and "shape a = shape b"
  shows "append_arg [] a \<noteq> append_arg [] b"
proof -
  from assms(4) have "AlphaNum (dtype a) \<noteq> AlphaNum (dtype b)"
    using AlphaNum_inj [of "dtype a" "dtype b"] by blast
  with assms show ?thesis by (auto simp: append_arg_text [of "[]"])
qed

lemma append_arg_shape:
  assumes "is_same_data_across_replicas a = is_same_data_across_replicas b"
    and "enable_xla_sharding a = enable_xla_sharding b"
    and "unrestricted_layout a = unrestricted_layout b"
    and "dtype a = dtype b" and "shape a \<noteq> shape b"
  shows "append_arg [] a \<noteq> append_arg [] b"
proof (cases "shape a"; cases "shape b")
  assume "shape a = None" "shape b = None"
  with assms show ?thesis by simp
next
  fix es assume "shape a = None" "shape b = Some es"
  with assms show ?thesis by (simp add: append_arg_text [of "[]"])
next
  fix ds assume "shape a = Some ds" "shape b = None"
  with assms show ?thesis by (simp add: append_arg_text [of "[]"])
next
  fix ds es assume s: "shape a = Some ds" "shape b = Some es"
  with assms have "ds \<noteq> es" by simp
  then have "append_dims [] ds \<noteq> append_dims [] es" using append_dims_inj by blast
  with assms s show ?thesis by (simp add: append_arg_text [of "[]"])
qed

lemma differ_in_one_field_cases:
  assumes "differ_in_one_field a b"
  obtains
    (same_flag) "is_same_data_across_replicas a \<noteq> is_same_data_across_replicas b"
      "enable_xla_sharding a = enable_xla_sharding b"
      "unrestricted_layout a = unrestricted_layout b" "dtype a = dtype b" "shape a = shape b"
  | (sharding) "is_same_data_across_replicas a = is_same_data_across_replicas b"
      "enable_xla_sharding a \<noteq> enable_xla_sharding b"
      "unrestricted_layout a = unrestricted_layout b" "dtype a = dtype b" "shape a = shape b"
  | (layout) "is_same_data_across_replicas a = is_same_data_across_replicas b"
      "enable_xla_sharding a = enable_xla_sharding b"
      "unrestricted_layout a \<noteq> unrestricted_layout b" "dtype a = dtype b" "shape a = shape b"
  | (element_type) "is_same_data_across_replicas a = is_same_data_across_replicas b"
      "enable_xla_sharding a = enable_xla_sharding b"
      "unrestricted_layout a = unrestricted_layout b" "dtype a \<noteq> dtype b" "shape a = shape b"
  | (static_shape) "is_same_data_across_replicas a = is_same_data_across_replicas b"
      "enable_xla_sharding a = enable_xla_sharding b"
      "unrestricted_layout a = unrestricted_layout b" "dtype a = dtype b" "shape a \<noteq> shape b"
  using assms unfolding differ_in_one_field_def
  by (cases "is_same_data_across_replicas a = is_same_data_across_replicas b";
      cases "enable_xla_sharding a = enable_xla_sharding b";
      cases "unrestricted_layout a = unrestricted_layout b";
      cases "dtype a = dtype b"; cases "shape a = shape b") simp_all

text \<open>
  Claim C1, as stated, fails: an argument whose sharding permission is disallowed and
  the same argument with the permission unspecified differ in exactly one field, and
  \<open>CreateConfigPrefix\<close> writes the same text for both, because line 68 tests the
  permission against \<open>ALLOWED\<close> only.
\<close>

theorem CreateConfigPrefix_sharding_collision:
  "differ_in_one_field
     \<lparr>is_same_data_across_replicas = False, enable_xla_sharding = DISALLOWED,
      unrestricted_layout = False, dtype = DT_INT32, shape = None\<rparr>
     \<lparr>is_same_data_across_replicas = False, enable_xla_sharding = UNSPECIFIED,
      unrestricted_layout = False, dtype = DT_INT32, shape = None\<rparr> \<and>
   CreateConfigPrefix
     \<lparr>args = [\<lparr>is_same_data_across_replicas = False, enable_xla_sharding = DISALLOWED,
               unrestricted_layout = False, dtype = DT_INT32, shape = None\<rparr>],
      device_assignment = None, num_cores_per_replica = 1, num_replicas = 1,
      session_handle = [], guaranteed_const_fingerprint = []\<rparr> =
   CreateConfigPrefix
     \<lparr>args = [\<lparr>is_same_data_across_replicas = False, enable_xla_sharding = UNSPECIFIED,
               unrestricted_layout = False, dtype = DT_INT32, shape = None\<rparr>],
      device_assignment = None, num_cores_per_replica = 1, num_replicas = 1,
      session_handle = [], guaranteed_const_fingerprint = []\<rparr>"
  by (simp add: differ_in_one_field_def CreateConfigPrefix_def append_arg_def)

text \<open>
  Claim C1, amended. When two sequences of argument configurations differ in exactly one
  field of one argument, \<open>CreateConfigPrefix\<close> writes different texts for them, except
  when the field is the sharding permission and neither value is \<open>ALLOWED\<close>: the
  permission is written as two states, allowed or not, so that \<open>ALLOWED\<close> is told from
  the other two values and those two are not told from each other.
\<close>

theorem CreateConfigPrefix_one_field:
  assumes "differ_in_one_field a b"
  shows "CreateConfigPrefix (metadata\<lparr>args := xs @ a # ys\<rparr>) =
         CreateConfigPrefix (metadata\<lparr>args := xs @ b # ys\<rparr>) \<longleftrightarrow>
         enable_xla_sharding a \<noteq> enable_xla_sharding b \<and>
         enable_xla_sharding a \<noteq> ALLOWED \<and> enable_xla_sharding b \<noteq> ALLOWED"
proof -
  have "append_arg [] a = append_arg [] b \<longleftrightarrow>
        enable_xla_sharding a \<noteq> enable_xla_sharding b \<and>
        enable_xla_sharding a \<noteq> ALLOWED \<and> enable_xla_sharding b \<noteq> ALLOWED"
    using assms
  proof (cases rule: differ_in_one_field_cases)
    case same_flag
    then show ?thesis using append_arg_same_flag [of a b] by simp
  next
    case sharding
    then show ?thesis using append_arg_sharding [of a b] by simp
  next
    case layout
    then show ?thesis using append_arg_layout [of a b] by simp
  next
    case element_type
    then show ?thesis using append_arg_dtype [of a b] by simp
  next
    case static_shape
    then show ?thesis using append_arg_shape [of a b] by simp
  qed
  then show ?thesis by (simp only: CreateConfigPrefix_cancel)
qed

theorem CreateConfigPrefix_one_field_witness:
  "CreateConfigPrefix
     \<lparr>args = [\<lparr>is_same_data_across_replicas = True, enable_xla_sharding = ALLOWED,
               unrestricted_layout = False, dtype = DT_FLOAT, shape = Some [8, 128]\<rparr>],
      device_assignment = None, num_cores_per_replica = 1, num_replicas = 1,
      session_handle = [], guaranteed_const_fingerprint = []\<rparr> \<noteq>
   CreateConfigPrefix
     \<lparr>args = [\<lparr>is_same_data_across_replicas = True, enable_xla_sharding = DISALLOWED,
               unrestricted_layout = False, dtype = DT_FLOAT, shape = Some [8, 128]\<rparr>],
      device_assignment = None, num_cores_per_replica = 1, num_replicas = 1,
      session_handle = [], guaranteed_const_fingerprint = []\<rparr>"
  using CreateConfigPrefix_one_field
    [where a = "\<lparr>is_same_data_across_replicas = True, enable_xla_sharding = ALLOWED,
          unrestricted_layout = False, dtype = DT_FLOAT, shape = Some [8, 128]\<rparr>"
       and b = "\<lparr>is_same_data_across_replicas = True, enable_xla_sharding = DISALLOWED,
          unrestricted_layout = False, dtype = DT_FLOAT, shape = Some [8, 128]\<rparr>"
       and metadata = "\<lparr>args = [], device_assignment = None, num_cores_per_replica = 1,
          num_replicas = 1, session_handle = [], guaranteed_const_fingerprint = []\<rparr>"
       and xs = "[]" and ys = "[]"]
  by (simp add: differ_in_one_field_def)

section \<open>GuaranteedConstFingerprint\<close>

lemma hash_calls_rolling: "hash_calls (rolling_hash_calls hash acc ts) = length ts"
  by (induction ts arbitrary: acc) (simp_all add: hash_calls_def)

lemma hash_calls_append: "hash_calls (xs @ ys) = hash_calls xs + hash_calls ys"
  by (simp add: hash_calls_def)

lemma fingerprint_runs_rolling: "fingerprint_runs (rolling_hash_calls hash acc ts) = 0"
  by (induction ts arbitrary: acc) (simp_all add: fingerprint_runs_def)

lemma fingerprint_runs_append:
  "fingerprint_runs (xs @ ys) = fingerprint_runs xs + fingerprint_runs ys"
  by (simp add: fingerprint_runs_def)

lemma runs_after_fingerprint:
  "fingerprint_runs (xs @ CallGuaranteedConstFingerprint # ys) =
   fingerprint_runs xs + 1 + fingerprint_runs ys"
  by (simp add: fingerprint_runs_def)

lemma hash_calls_after_fingerprint:
  "hash_calls (xs @ CallGuaranteedConstFingerprint # ys) = hash_calls xs + hash_calls ys"
  by (simp add: hash_calls_def)

lemma runs_Nil: "fingerprint_runs [] = 0" "hash_calls [] = 0"
  by (simp_all add: fingerprint_runs_def hash_calls_def)

lemma take_drop_step:
  assumes "i < n" "n \<le> length ts"
  shows "take (n - i) (drop i ts) = ts ! i # take (n - Suc i) (drop (Suc i) ts)"
proof -
  from assms have "drop i ts = ts ! i # drop (Suc i) ts" by (simp add: Cons_nth_drop_Suc)
  moreover from assms have "n - i = Suc (n - Suc i)" by simp
  ultimately show ?thesis by simp
qed

lemma fingerprint_loop_fold:
  "i \<le> n \<Longrightarrow> n \<le> length ts \<Longrightarrow>
   fingerprint_loop hash (Some ts) n i acc w =
     (Inr (foldl (\<lambda>fp t. hash fp (tensor_data t)) acc (take (n - i) (drop i ts))),
      w\<lparr>trace := trace w @ rolling_hash_calls hash acc (take (n - i) (drop i ts))\<rparr>)"
proof (induction "n - i" arbitrary: i acc w)
  case 0
  then have "i = n" by simp
  then show ?case by (subst fingerprint_loop.simps) simp
next
  case (Suc k)
  then have lt: "i < n" and le: "Suc i \<le> n" and k: "k = n - Suc i" by simp_all
  from lt Suc.prems have at: "tensor_at (Some ts) i = Inr (ts ! i)"
    by (simp add: tensor_at_def)
  have step: "take (n - i) (drop i ts) = ts ! i # take (n - Suc i) (drop (Suc i) ts)"
    using lt Suc.prems(2) by (rule take_drop_step)
  show ?case
    by (subst fingerprint_loop.simps)
      (simp add: lt at step Suc.hyps(1) [OF k le Suc.prems(2)])
qed

lemma GuaranteedConstFingerprint_verbatim:
  "fingerprint_in_metadata \<noteq> [] \<Longrightarrow>
   GuaranteedConstFingerprint hash fingerprint_in_metadata guaranteed_constants n w =
     (Inr fingerprint_in_metadata, w\<lparr>trace := trace w @ [CallGuaranteedConstFingerprint]\<rparr>)"
  by (simp add: GuaranteedConstFingerprint_def)

lemma GuaranteedConstFingerprint_fold:
  assumes n: "n \<le> length ts"
  shows "GuaranteedConstFingerprint hash [] (Some ts) n w =
        (Inr (to_string (foldl (\<lambda>fp t. hash fp (tensor_data t)) 0 (take n ts))),
         w\<lparr>trace := trace w @ CallGuaranteedConstFingerprint #
                  rolling_hash_calls hash 0 (take n ts)\<rparr>)"
proof -
  have "fingerprint_loop hash (Some ts) n 0 0
          (w\<lparr>trace := trace w @ [CallGuaranteedConstFingerprint]\<rparr>) =
        (Inr (foldl (\<lambda>fp t. hash fp (tensor_data t)) 0 (take n ts)),
         w\<lparr>trace := trace w @ CallGuaranteedConstFingerprint #
                  rolling_hash_calls hash 0 (take n ts)\<rparr>)"
    using fingerprint_loop_fold [of 0 n ts hash 0
        "w\<lparr>trace := trace w @ [CallGuaranteedConstFingerprint]\<rparr>"] n
    by simp
  then show ?thesis by (simp add: GuaranteedConstFingerprint_def)
qed

lemma to_string_nonempty: "to_string v \<noteq> []"
  by (simp add: to_string_def nat_digits_nonempty)

lemma GuaranteedConstFingerprint_returns:
  assumes n: "n \<le> length ts"
  shows "\<exists>s. s \<noteq> [] \<and>
    GuaranteedConstFingerprint hash fingerprint_in_metadata (Some ts) n w =
      (Inr s, w\<lparr>trace := trace w @ CallGuaranteedConstFingerprint #
                 (if fingerprint_in_metadata = [] then rolling_hash_calls hash 0 (take n ts)
                  else [])\<rparr>)"
proof (cases "fingerprint_in_metadata = []")
  case True
  with GuaranteedConstFingerprint_fold [OF n, of hash w] to_string_nonempty
  show ?thesis by simp
next
  case False
  with GuaranteedConstFingerprint_verbatim [OF False, of hash "Some ts" n w]
  show ?thesis by simp
qed

text \<open>
  Claim C4. \<open>GuaranteedConstFingerprint\<close> returns the fingerprint of the metadata as it
  is whenever that text is not empty, and then the rolling hash is not called: the log
  gains the entry of the run and no call of the hash. Otherwise, on an array that holds
  the \<open>n\<close> tensors it is asked to read, it returns the decimal text of the 64-bit
  accumulator that starts at 0 and is folded through the rolling hash over the bytes of
  the tensors with indices 0 to \<open>n - 1\<close>, in that order, calling the hash \<open>n\<close> times.
\<close>

theorem GuaranteedConstFingerprint_result:
  "(fingerprint_in_metadata \<noteq> [] \<longrightarrow>
      GuaranteedConstFingerprint hash fingerprint_in_metadata guaranteed_constants n w =
        (Inr fingerprint_in_metadata, w\<lparr>trace := trace w @ [CallGuaranteedConstFingerprint]\<rparr>) \<and>
      hash_calls (trace (snd (GuaranteedConstFingerprint hash fingerprint_in_metadata
        guaranteed_constants n w))) = hash_calls (trace w)) \<and>
   (n \<le> length ts \<longrightarrow>
      GuaranteedConstFingerprint hash [] (Some ts) n w =
        (Inr (to_string (foldl (\<lambda>fp t. hash fp (tensor_data t)) 0 (take n ts))),
         w\<lparr>trace := trace w @ CallGuaranteedConstFingerprint #
                  rolling_hash_calls hash 0 (take n ts)\<rparr>) \<and>
      hash_calls (trace (snd (GuaranteedConstFingerprint hash [] (Some ts) n w))) =
        hash_calls (trace w) + n)"
proof (intro conjI impI)
  assume ne: "fingerprint_in_metadata \<noteq> []"
  then show "GuaranteedConstFingerprint hash fingerprint_in_metadata guaranteed_constants n w =
       (Inr fingerprint_in_metadata, w\<lparr>trace := trace w @ [CallGuaranteedConstFingerprint]\<rparr>)"
    by (rule GuaranteedConstFingerprint_verbatim)
  show "hash_calls (trace (snd (GuaranteedConstFingerprint hash fingerprint_in_metadata
          guaranteed_constants n w))) = hash_calls (trace w)"
    by (simp add: GuaranteedConstFingerprint_verbatim [OF ne] hash_calls_after_fingerprint
        runs_Nil)
next
  assume n: "n \<le> length ts"
  then show "GuaranteedConstFingerprint hash [] (Some ts) n w =
        (Inr (to_string (foldl (\<lambda>fp t. hash fp (tensor_data t)) 0 (take n ts))),
         w\<lparr>trace := trace w @ CallGuaranteedConstFingerprint #
                  rolling_hash_calls hash 0 (take n ts)\<rparr>)"
    by (rule GuaranteedConstFingerprint_fold)
  from n show "hash_calls (trace (snd (GuaranteedConstFingerprint hash [] (Some ts) n w))) =
        hash_calls (trace w) + n"
    by (simp add: GuaranteedConstFingerprint_fold [OF n] hash_calls_after_fingerprint
        hash_calls_rolling)
qed

theorem GuaranteedConstFingerprint_result_witness:
  "GuaranteedConstFingerprint (\<lambda>fp bytes. 31 * fp + of_nat (length bytes)) ''abc123''
     (Some [Tensor [1, 2], Tensor [3]]) 2
     \<lparr>native_state = (), buffers = Map.empty, next_buffer = 0, trace = []\<rparr> =
     (Inr ''abc123'',
      \<lparr>native_state = (), buffers = Map.empty, next_buffer = 0,
       trace = [CallGuaranteedConstFingerprint]\<rparr>) \<and>
   GuaranteedConstFingerprint (\<lambda>fp bytes. 31 * fp + of_nat (length bytes)) []
     (Some [Tensor [1, 2], Tensor [3]]) 2
     \<lparr>native_state = (), buffers = Map.empty, next_buffer = 0, trace = []\<rparr> =
     (Inr ''63'',
      \<lparr>native_state = (), buffers = Map.empty, next_buffer = 0,
       trace = [CallGuaranteedConstFingerprint,
                CallCreateGuaranteedConstFingerprint 0 [1, 2],
                CallCreateGuaranteedConstFingerprint 2 [3]]\<rparr>)"
  using GuaranteedConstFingerprint_result
    [where fingerprint_in_metadata = "''abc123''"
       and hash = "\<lambda>fp bytes. 31 * fp + of_nat (length bytes)"
       and guaranteed_constants = "Some [Tensor [1, 2], Tensor [3]]"
       and ts = "[Tensor [1, 2], Tensor [3]]" and n = 2
       and w = "\<lparr>native_state = (), buffers = Map.empty, next_buffer = 0, trace = []\<rparr>"]
  by (simp add: to_string_def nat_digits.simps digit_char_def)

section \<open>CreateCompilationCacheKey\<close>

lemma release_after_store:
  "(m(a \<mapsto> k, b \<mapsto> d))(a := None, b := None) = m(a := None, b := None)"
  by (rule ext) simp

lemma CreateCompilationCacheKey_alloc_unfold:
  "CreateCompilationCacheKey_alloc memory native function_name function_library_fingerprint
     mlir_module guaranteed_constants guaranteed_constants_size dynamic_shapes metadata
     mesh_state w =
   ((if memory 0 \<and> memory 1 then
       attach_guaranteed_const memory guaranteed_constants guaranteed_constants_size metadata
         (default_key
            \<lparr>prefix := fst (fst (native (native_state w)
                (key_property function_name function_library_fingerprint mlir_module
                   guaranteed_constants_size dynamic_shapes metadata mesh_state))),
             TpuCompilationCacheKey.debug_string := snd (fst (native (native_state w)
                (key_property function_name function_library_fingerprint mlir_module
                   guaranteed_constants_size dynamic_shapes metadata mesh_state)))\<rparr>)
     else Inl BadAlloc),
    w\<lparr>native_state := snd (native (native_state w)
          (key_property function_name function_library_fingerprint mlir_module
             guaranteed_constants_size dynamic_shapes metadata mesh_state)),
      buffers := (buffers w)(next_buffer w := None, Suc (next_buffer w) := None),
      next_buffer := Suc (Suc (next_buffer w)),
      trace := trace w @
        [CallCreateCompilationCacheKey
           (key_property function_name function_library_fingerprint mlir_module
              guaranteed_constants_size dynamic_shapes metadata mesh_state),
         CallDestroyCompilationCacheKey
           \<lparr>key = next_buffer w, debug_string = Suc (next_buffer w)\<rparr>]\<rparr>)"
  by (simp add: CreateCompilationCacheKey_alloc_def assemble_key_def
      TpuCompile_CreateCompilationCacheKey_def TpuCompile_DestroyCompilationCacheKey_def
      string_from_buffer_def release_after_store split: prod.split)

lemma CreateCompilationCacheKey_unfold:
  "CreateCompilationCacheKey native function_name function_library_fingerprint mlir_module
     guaranteed_constants guaranteed_constants_size dynamic_shapes metadata mesh_state w =
   (Inr (if guaranteed_constants \<noteq> None \<and> 0 < guaranteed_constants_size then
           guaranteed_const_fields guaranteed_constants guaranteed_constants_size metadata
             (default_key
                \<lparr>prefix := fst (fst (native (native_state w)
                    (key_property function_name function_library_fingerprint mlir_module
                       guaranteed_constants_size dynamic_shapes metadata mesh_state))),
                 TpuCompilationCacheKey.debug_string := snd (fst (native (native_state w)
                    (key_property function_name function_library_fingerprint mlir_module
                       guaranteed_constants_size dynamic_shapes metadata mesh_state)))\<rparr>)
         else
           default_key
             \<lparr>prefix := fst (fst (native (native_state w)
                 (key_property function_name function_library_fingerprint mlir_module
                    guaranteed_constants_size dynamic_shapes metadata mesh_state))),
              TpuCompilationCacheKey.debug_string := snd (fst (native (native_state w)
                 (key_property function_name function_library_fingerprint mlir_module
                    guaranteed_constants_size dynamic_shapes metadata mesh_state)))\<rparr>),
    w\<lparr>native_state := snd (native (native_state w)
          (key_property function_name function_library_fingerprint mlir_module
             guaranteed_constants_size dynamic_shapes metadata mesh_state)),
      buffers := (buffers w)(next_buffer w := None, Suc (next_buffer w) := None),
      next_buffer := Suc (Suc (next_buffer w)),
      trace := trace w @
        [CallCreateCompilationCacheKey
           (key_property function_name function_library_fingerprint mlir_module
              guaranteed_constants_size dynamic_shapes metadata mesh_state),
         CallDestroyCompilationCacheKey
           \<lparr>key = next_buffer w, debug_string = Suc (next_buffer w)\<rparr>]\<rparr>)"
  by (simp add: CreateCompilationCacheKey_def CreateCompilationCacheKey_alloc_unfold
      attach_guaranteed_const_def)

lemma guaranteed_const_fields_prefix:
  "prefix (guaranteed_const_fields gc n metadata k) = prefix k"
  "TpuCompilationCacheKey.debug_string (guaranteed_const_fields gc n metadata k) =
   TpuCompilationCacheKey.debug_string k"
  by (simp_all add: guaranteed_const_fields_def)

lemma attach_guaranteed_const_result:
  "attach_guaranteed_const memory gc n metadata k = Inl BadAlloc \<or>
   (\<exists>k'. attach_guaranteed_const memory gc n metadata k = Inr k' \<and> prefix k' = prefix k \<and>
      TpuCompilationCacheKey.debug_string k' = TpuCompilationCacheKey.debug_string k)"
  by (simp add: attach_guaranteed_const_def guaranteed_const_fields_prefix)

lemma attach_guaranteed_const_succeeds:
  "(\<exists>k'. attach_guaranteed_const memory gc n metadata k = Inr k') =
   (gc = None \<or> n = 0 \<or> memory 2 \<and> memory 3)"
  by (auto simp: attach_guaranteed_const_def)

text \<open>
  Claim C9. On every path of \<open>CreateCompilationCacheKey\<close> that follows the native call,
  whether it returns the key or is left by \<open>std::bad_alloc\<close> at any of the four
  allocations, and on both branches of line 135,
  \<open>TpuCompile_DestroyCompilationCacheKey\<close> is called exactly once, on the result of the
  native call and after that call: the log gains the native call followed by the release
  and nothing else. Afterwards the two buffers of the result are released (a read of
  them would be a fault) and no other buffer is touched. Whenever a key is returned, its
  \<open>prefix\<close> and \<open>debug_string\<close> hold the two texts the native call produced: they were
  copied out before the release. A key is returned exactly when every allocation on the
  path succeeds.
\<close>

theorem result_buffer_released_once:
  "\<exists>r w1.
     CreateCompilationCacheKey_alloc memory native function_name function_library_fingerprint
       mlir_module guaranteed_constants guaranteed_constants_size dynamic_shapes metadata
       mesh_state w = (r, w1) \<and>
     trace w1 = trace w @
       [CallCreateCompilationCacheKey
          (key_property function_name function_library_fingerprint mlir_module
             guaranteed_constants_size dynamic_shapes metadata mesh_state),
        CallDestroyCompilationCacheKey
          \<lparr>key = next_buffer w, debug_string = Suc (next_buffer w)\<rparr>] \<and>
     release_calls (trace w1) = release_calls (trace w) + 1 \<and>
     buffers w1 = (buffers w)(next_buffer w := None, Suc (next_buffer w) := None) \<and>
     string_from_buffer True w1 (next_buffer w) = Inl FreedBuffer \<and>
     string_from_buffer True w1 (Suc (next_buffer w)) = Inl FreedBuffer \<and>
     (r = Inl BadAlloc \<or>
      (\<exists>k. r = Inr k \<and>
         prefix k = fst (fst (native (native_state w)
           (key_property function_name function_library_fingerprint mlir_module
              guaranteed_constants_size dynamic_shapes metadata mesh_state))) \<and>
         TpuCompilationCacheKey.debug_string k = snd (fst (native (native_state w)
           (key_property function_name function_library_fingerprint mlir_module
              guaranteed_constants_size dynamic_shapes metadata mesh_state))))) \<and>
     ((\<exists>k. r = Inr k) =
      (memory 0 \<and> memory 1 \<and>
       (guaranteed_constants = None \<or> guaranteed_constants_size = 0 \<or>
        memory 2 \<and> memory 3)))"
proof -
  let ?p = "key_property function_name function_library_fingerprint mlir_module
              guaranteed_constants_size dynamic_shapes metadata mesh_state"
  let ?r = "\<lparr>key = next_buffer w, debug_string = Suc (next_buffer w)\<rparr>"
  let ?k0 = "default_key\<lparr>prefix := fst (fst (native (native_state w) ?p)),
               TpuCompilationCacheKey.debug_string := snd (fst (native (native_state w) ?p))\<rparr>"
  obtain r w1 where call:
    "CreateCompilationCacheKey_alloc memory native function_name function_library_fingerprint
       mlir_module guaranteed_constants guaranteed_constants_size dynamic_shapes metadata
       mesh_state w = (r, w1)"
    and r: "r = (if memory 0 \<and> memory 1 then
        attach_guaranteed_const memory guaranteed_constants guaranteed_constants_size
          metadata ?k0
        else Inl BadAlloc)"
    and tr: "trace w1 = trace w @
        [CallCreateCompilationCacheKey ?p, CallDestroyCompilationCacheKey ?r]"
    and bufs: "buffers w1 = (buffers w)(next_buffer w := None, Suc (next_buffer w) := None)"
    by (simp add: CreateCompilationCacheKey_alloc_unfold)
  have once: "release_calls (trace w1) = release_calls (trace w) + 1"
    by (simp add: tr release_calls_def)
  have freed: "string_from_buffer True w1 (next_buffer w) = Inl FreedBuffer"
    "string_from_buffer True w1 (Suc (next_buffer w)) = Inl FreedBuffer"
    by (simp_all add: string_from_buffer_def bufs)
  have copied: "r = Inl BadAlloc \<or>
      (\<exists>k. r = Inr k \<and> prefix k = fst (fst (native (native_state w) ?p)) \<and>
         TpuCompilationCacheKey.debug_string k = snd (fst (native (native_state w) ?p)))"
  proof (cases "memory 0 \<and> memory 1")
    case True
    have k0: "prefix ?k0 = fst (fst (native (native_state w) ?p))"
      "TpuCompilationCacheKey.debug_string ?k0 = snd (fst (native (native_state w) ?p))"
      by (simp_all add: default_key_def)
    from True r have "r = attach_guaranteed_const memory guaranteed_constants
        guaranteed_constants_size metadata ?k0" by simp
    then have req: "r = attach_guaranteed_const memory guaranteed_constants
        guaranteed_constants_size metadata ?k0" .
    from attach_guaranteed_const_result
      [of memory guaranteed_constants guaranteed_constants_size metadata ?k0]
    consider (bad) "attach_guaranteed_const memory guaranteed_constants
        guaranteed_constants_size metadata ?k0 = Inl BadAlloc"
      | (ok) k' where "attach_guaranteed_const memory guaranteed_constants
        guaranteed_constants_size metadata ?k0 = Inr k'"
        "prefix k' = prefix ?k0"
        "TpuCompilationCacheKey.debug_string k' = TpuCompilationCacheKey.debug_string ?k0"
      by blast
    then show ?thesis
    proof cases
      case bad
      with req show ?thesis by simp
    next
      case ok
      with req k0 show ?thesis by simp
    qed
  next
    case False
    from r have "r = Inl BadAlloc" by (simp only: False if_False)
    then show ?thesis by simp
  qed
  have returns: "(\<exists>k. r = Inr k) =
      (memory 0 \<and> memory 1 \<and>
       (guaranteed_constants = None \<or> guaranteed_constants_size = 0 \<or>
        memory 2 \<and> memory 3))"
  proof (cases "memory 0 \<and> memory 1")
    case True
    with r attach_guaranteed_const_succeeds
      [of memory guaranteed_constants guaranteed_constants_size metadata ?k0]
    show ?thesis by simp
  next
    case False
    from r have "r = Inl BadAlloc" by (simp only: False if_False)
    with False show ?thesis by blast
  qed
  from call tr once bufs freed copied returns show ?thesis by blast
qed

theorem result_buffer_released_once_witness:
  "fst (CreateCompilationCacheKey_alloc (\<lambda>i. i \<noteq> 1) sample_native
          (string_view ''matmul_fn'' []) 42 (string_view ''module'' [])
          (Some [Tensor [1, 2], Tensor [3]]) 2 [] sample_metadata (TpuMeshStateInterface 0)
          sample_world) = Inl BadAlloc \<and>
   release_calls (trace (snd (CreateCompilationCacheKey_alloc (\<lambda>i. i \<noteq> 1) sample_native
          (string_view ''matmul_fn'' []) 42 (string_view ''module'' [])
          (Some [Tensor [1, 2], Tensor [3]]) 2 [] sample_metadata (TpuMeshStateInterface 0)
          sample_world))) = 1 \<and>
   buffers (snd (CreateCompilationCacheKey_alloc (\<lambda>i. i \<noteq> 1) sample_native
          (string_view ''matmul_fn'' []) 42 (string_view ''module'' [])
          (Some [Tensor [1, 2], Tensor [3]]) 2 [] sample_metadata (TpuMeshStateInterface 0)
          sample_world)) 0 = None"
proof -
  obtain r w1 where call:
    "CreateCompilationCacheKey_alloc (\<lambda>i. i \<noteq> 1) sample_native
       (string_view ''matmul_fn'' []) 42 (string_view ''module'' [])
       (Some [Tensor [1, 2], Tensor [3]]) 2 [] sample_metadata (TpuMeshStateInterface 0)
       sample_world = (r, w1)"
    and once: "release_calls (trace w1) = release_calls (trace sample_world) + 1"
    and bufs: "buffers w1 =
       (buffers sample_world)(next_buffer sample_world := None,
          Suc (next_buffer sample_world) := None)"
    and copied: "r = Inl BadAlloc \<or> (\<exists>k. r = Inr k)"
    and returns: "(\<exists>k. r = Inr k) = ((1::nat) \<noteq> 1)"
    using result_buffer_released_once
      [where memory = "\<lambda>i. i \<noteq> 1" and native = sample_native
         and function_name = "string_view ''matmul_fn'' []" and function_library_fingerprint = 42
         and mlir_module = "string_view ''module'' []"
         and guaranteed_constants = "Some [Tensor [1, 2], Tensor [3]]"
         and guaranteed_constants_size = 2 and dynamic_shapes = "[]"
         and metadata = sample_metadata and mesh_state = "TpuMeshStateInterface 0"
         and w = sample_world]
    by auto
  from copied returns have "r = Inl BadAlloc" by simp
  with call once bufs show ?thesis by (simp add: sample_world_def release_calls_def)
qed

subsection \<open>The texts handed to the native call\<close>

lemma c_str_terminated: "CHR 0x00 \<notin> set s \<Longrightarrow> c_str (string_view s []) = s"
  by (auto simp: c_str_def)

text \<open>
  When the native key construction yields a text that depends on its argument only, two
  calls with the same inputs in the same memory (the same views with the same bytes
  behind them) return keys with the same \<open>prefix\<close>, in any two worlds.
\<close>

lemma prefix_deterministic_in_same_memory:
  assumes "\<forall>s s' p. fst (native s p) = fst (native s' p)"
  shows "\<exists>k k'.
    fst (CreateCompilationCacheKey native function_name function_library_fingerprint mlir_module
           guaranteed_constants guaranteed_constants_size dynamic_shapes metadata mesh_state w)
      = Inr k \<and>
    fst (CreateCompilationCacheKey native function_name function_library_fingerprint mlir_module
           guaranteed_constants guaranteed_constants_size dynamic_shapes metadata mesh_state w')
      = Inr k' \<and>
    prefix k = prefix k'"
proof -
  from assms have same: "fst (native (native_state w) p) = fst (native (native_state w') p)"
    for p by blast
  show ?thesis
    by (simp add: CreateCompilationCacheKey_unfold guaranteed_const_fields_prefix
        default_key_def same)
qed

text \<open>
  Claim C3 asks that two calls of \<open>CreateCompilationCacheKey\<close> with the same inputs give
  the same \<open>prefix\<close> when the native key construction is a function of its arguments.
  The code does not ensure it. Lines 117 and 118 hand \<open>function_name.data()\<close> and
  \<open>mlir_module.data()\<close> to the native call without the length of the view, so that the
  native call reads on to the next NUL byte. For the view \<open>abc\<close> of the function name,
  once with \<open>def\<close> and once with \<open>xyz\<close> behind it in memory, the inputs are the same, the
  native call receives \<open>abcdef\<close> and \<open>abcxyz\<close>, and with a native key construction whose
  text depends on its argument only the two prefixes differ.
\<close>

theorem function_name_read_beyond_view:
  "view (string_view ''abc'' ''def'') = view (string_view ''abc'' ''xyz'') \<and>
   p_function_name (key_property (string_view ''abc'' ''def'') function_library_fingerprint
     mlir_module guaranteed_constants_size dynamic_shapes metadata mesh_state) = ''abcdef'' \<and>
   p_function_name (key_property (string_view ''abc'' ''xyz'') function_library_fingerprint
     mlir_module guaranteed_constants_size dynamic_shapes metadata mesh_state) = ''abcxyz'' \<and>
   (\<forall>s s' p. fst (sample_native s p) = fst (sample_native s' p)) \<and>
   prefix (projr (fst (CreateCompilationCacheKey sample_native (string_view ''abc'' ''def'') 42
      (string_view ''module'' []) None 0 [] sample_metadata (TpuMeshStateInterface 0)
      sample_world))) = ''abcdef:,type(3)'' \<and>
   prefix (projr (fst (CreateCompilationCacheKey sample_native (string_view ''abc'' ''xyz'') 42
      (string_view ''module'' []) None 0 [] sample_metadata (TpuMeshStateInterface 0)
      sample_world))) = ''abcxyz:,type(3)''"
  by (simp add: key_property_def Let_def c_str_def CreateCompilationCacheKey_unfold
      sample_native_def sample_metadata_def default_key_def CreateConfigPrefix_def
      append_arg_def CreateShapePrefix_def DT_INT32_def AlphaNum_def nat_digits.simps
      digit_char_def)

subsection \<open>The two forms\<close>

text \<open>
  The two forms return keys with the same \<open>prefix\<close>, \<open>debug_string\<close>,
  \<open>has_guaranteed_const\<close> and \<open>session_handle\<close> and have the same effects; and where the
  tensors of the list lie one after the other in memory they return the same key.
\<close>

lemma overloads_agree_on_prefix:
  "\<exists>k k' w1.
     CreateCompilationCacheKey_OpInputList native function_name function_library_fingerprint
       mlir_module guaranteed_constants dynamic_shapes metadata mesh_state w = (Inr k, w1) \<and>
     CreateCompilationCacheKey native function_name function_library_fingerprint mlir_module
       (Some (tensors guaranteed_constants)) (length (tensors guaranteed_constants))
       dynamic_shapes metadata mesh_state w = (Inr k', w1) \<and>
     prefix k = prefix k' \<and>
     TpuCompilationCacheKey.debug_string k = TpuCompilationCacheKey.debug_string k' \<and>
     has_guaranteed_const k = has_guaranteed_const k' \<and>
     TpuCompilationCacheKey.session_handle k = TpuCompilationCacheKey.session_handle k'"
  by (simp add: CreateCompilationCacheKey_OpInputList_def CreateCompilationCacheKey_unfold
      guaranteed_const_fields_def default_key_def)

lemma overloads_agree_when_contiguous:
  assumes "behind_first guaranteed_constants = tl (tensors guaranteed_constants)"
  shows "CreateCompilationCacheKey_OpInputList native function_name
     function_library_fingerprint mlir_module guaranteed_constants dynamic_shapes metadata
     mesh_state w =
   CreateCompilationCacheKey native function_name function_library_fingerprint mlir_module
     (Some (tensors guaranteed_constants)) (length (tensors guaranteed_constants))
     dynamic_shapes metadata mesh_state w"
proof (cases "tensors guaranteed_constants")
  case Nil
  then show ?thesis
    by (simp add: CreateCompilationCacheKey_OpInputList_def CreateCompilationCacheKey_unfold)
next
  case (Cons t ts)
  with assms show ?thesis by (simp add: CreateCompilationCacheKey_OpInputList_def)
qed

text \<open>
  Claim C6 asks that the \<open>OpInputList\<close> form returns a key identical to that of the
  pointer and length form on the same tensors, with no other difference in behaviour.
  The code does not ensure it. Line 165 passes the address of the first tensor of the
  list and line 33 indexes from that address, which reaches the other tensors of the list
  only if they lie behind the first one in memory. For a list of the two tensors with
  the bytes 1, 2 and 3, with a tensor of five bytes behind the first one in memory, the
  closure of the key of the \<open>OpInputList\<close> form hashes the bytes 1, 2 and then those
  five bytes and returns 67, where the closure of the pointer and length form on the
  two tensors hashes 1, 2 and then 3 and returns 63.
\<close>

theorem OpInputList_fingerprint_reads_behind_first:
  "fst (invoke_guaranteed_const_fingerprint sample_hash
     (projr (fst (CreateCompilationCacheKey_OpInputList sample_native
        (string_view ''matmul_fn'' []) 42 (string_view ''module'' [])
        (OpInputList [Tensor [1, 2], Tensor [3]] [Tensor [9, 9, 9, 9, 9]]) []
        sample_metadata (TpuMeshStateInterface 0) sample_world)))
     sample_world) = Inr ''67'' \<and>
   trace (snd (snd (invoke_guaranteed_const_fingerprint sample_hash
     (projr (fst (CreateCompilationCacheKey_OpInputList sample_native
        (string_view ''matmul_fn'' []) 42 (string_view ''module'' [])
        (OpInputList [Tensor [1, 2], Tensor [3]] [Tensor [9, 9, 9, 9, 9]]) []
        sample_metadata (TpuMeshStateInterface 0) sample_world)))
     sample_world))) =
     [CallGuaranteedConstFingerprint,
      CallCreateGuaranteedConstFingerprint 0 [1, 2],
      CallCreateGuaranteedConstFingerprint 2 [9, 9, 9, 9, 9]] \<and>
   fst (invoke_guaranteed_const_fingerprint sample_hash
     (projr (fst (CreateCompilationCacheKey sample_native
        (string_view ''matmul_fn'' []) 42 (string_view ''module'' [])
        (Some [Tensor [1, 2], Tensor [3]]) 2 []
        sample_metadata (TpuMeshStateInterface 0) sample_world)))
     sample_world) = Inr ''63'' \<and>
   trace (snd (snd (invoke_guaranteed_const_fingerprint sample_hash
     (projr (fst (CreateCompilationCacheKey sample_native
        (string_view ''matmul_fn'' []) 42 (string_view ''module'' [])
        (Some [Tensor [1, 2], Tensor [3]]) 2 []
        sample_metadata (TpuMeshStateInterface 0) sample_world)))
     sample_world))) =
     [CallGuaranteedConstFingerprint,
      CallCreateGuaranteedConstFingerprint 0 [1, 2],
      CallCreateGuaranteedConstFingerprint 2 [3]]"
  by (simp add: CreateCompilationCacheKey_OpInputList_def CreateCompilationCacheKey_unfold
      guaranteed_const_fields_def invoke_guaranteed_const_fingerprint_def call_closure_def
      sample_metadata_def GuaranteedConstFingerprint_fold sample_hash_def sample_world_def
      to_string_def nat_digits.simps digit_char_def)

subsection \<open>The fields of the key\<close>

text \<open>
  Claim C7. A call with an empty sequence of constants, through either form, returns a
  key whose \<open>has_guaranteed_const\<close> is false, whose \<open>guaranteed_const_fingerprint\<close> is
  unset and whose \<open>session_handle\<close> is the empty default, and it neither runs
  \<open>GuaranteedConstFingerprint\<close> nor calls the rolling hash. In general the three fields
  leave their defaults exactly on the branch taken when the pointer is not null and the
  length is positive.
\<close>

theorem no_constants_no_fingerprint:
  "(\<exists>k w1.
      CreateCompilationCacheKey native function_name function_library_fingerprint mlir_module
        guaranteed_constants 0 dynamic_shapes metadata mesh_state w = (Inr k, w1) \<and>
      \<not> has_guaranteed_const k \<and>
      TpuCompilationCacheKey.guaranteed_const_fingerprint k = None \<and>
      TpuCompilationCacheKey.session_handle k = [] \<and>
      fingerprint_runs (trace w1) = fingerprint_runs (trace w) \<and>
      hash_calls (trace w1) = hash_calls (trace w)) \<and>
   (\<exists>k w1.
      CreateCompilationCacheKey_OpInputList native function_name function_library_fingerprint
        mlir_module (OpInputList [] behind) dynamic_shapes metadata mesh_state w =
        (Inr k, w1) \<and>
      \<not> has_guaranteed_const k \<and>
      TpuCompilationCacheKey.guaranteed_const_fingerprint k = None \<and>
      TpuCompilationCacheKey.session_handle k = [] \<and>
      fingerprint_runs (trace w1) = fingerprint_runs (trace w) \<and>
      hash_calls (trace w1) = hash_calls (trace w)) \<and>
   (\<exists>k w1.
      CreateCompilationCacheKey native function_name function_library_fingerprint mlir_module
        guaranteed_constants n dynamic_shapes metadata mesh_state w = (Inr k, w1) \<and>
      has_guaranteed_const k = (guaranteed_constants \<noteq> None \<and> 0 < n) \<and>
      (TpuCompilationCacheKey.guaranteed_const_fingerprint k \<noteq> None) =
        (guaranteed_constants \<noteq> None \<and> 0 < n) \<and>
      TpuCompilationCacheKey.session_handle k =
        (if guaranteed_constants \<noteq> None \<and> 0 < n
         then TPUCompileMetadataProto.session_handle metadata else []))"
  by (simp add: CreateCompilationCacheKey_OpInputList_def CreateCompilationCacheKey_unfold
      guaranteed_const_fields_def default_key_def fingerprint_runs_def hash_calls_def)

text \<open>
  Claim C8, as stated, fails: for one argument that is not the same across replicas and
  has the element type \<open>int32\<close>, the configuration prefix is not \<open>:,type(int32)\<close>. Line
  77 writes the value of the enumeration, which \<open>absl::StrAppend\<close> renders as its number.
\<close>

theorem element_type_written_as_number:
  "CreateConfigPrefix
     \<lparr>args = [\<lparr>is_same_data_across_replicas = False, enable_xla_sharding = UNSPECIFIED,
               unrestricted_layout = False, dtype = DT_INT32, shape = None\<rparr>],
      device_assignment = None, num_cores_per_replica = 1, num_replicas = 1,
      session_handle = [], guaranteed_const_fingerprint = []\<rparr> \<noteq> '':,type(int32)''"
  by (simp add: CreateConfigPrefix_def append_arg_def DT_INT32_def AlphaNum_def
      nat_digits.simps digit_char_def)

text \<open>
  Claim C8, amended. For the function name \<open>matmul_fn\<close>, the library fingerprint 42, no
  dynamic shapes, one argument that is not the same across replicas and has the element
  type \<open>int32\<close>, and no constants, the configuration prefix is \<open>:,type(3)\<close>, the shape
  prefix is empty, these are the prefixes handed to the native call, and the key has
  \<open>has_guaranteed_const\<close> false. One argument that is the same across replicas with the
  element type \<open>float32\<close> gives \<open>:s,type(1)\<close>, and \<open>:,type(1)\<close> when it is not the same
  across replicas. The element type is written as the number of its \<open>DataType\<close> value.
\<close>

theorem matmul_scenario:
  "CreateConfigPrefix
     (metadata\<lparr>args := [\<lparr>is_same_data_across_replicas = False,
        enable_xla_sharding = UNSPECIFIED, unrestricted_layout = False,
        dtype = DT_INT32, shape = None\<rparr>]\<rparr>) = '':,type(3)'' \<and>
   CreateShapePrefix [] = '''' \<and>
   p_config_prefix (key_property (string_view ''matmul_fn'' beyond_name) 42 mlir_module 0 []
     (metadata\<lparr>args := [\<lparr>is_same_data_across_replicas = False,
        enable_xla_sharding = UNSPECIFIED, unrestricted_layout = False,
        dtype = DT_INT32, shape = None\<rparr>]\<rparr>) mesh_state) = '':,type(3)'' \<and>
   p_shapes_prefix (key_property (string_view ''matmul_fn'' beyond_name) 42 mlir_module 0 []
     (metadata\<lparr>args := [\<lparr>is_same_data_across_replicas = False,
        enable_xla_sharding = UNSPECIFIED, unrestricted_layout = False,
        dtype = DT_INT32, shape = None\<rparr>]\<rparr>) mesh_state) = '''' \<and>
   (\<exists>k. fst (CreateCompilationCacheKey_OpInputList native
            (string_view ''matmul_fn'' beyond_name) 42 mlir_module (OpInputList [] behind) []
            (metadata\<lparr>args := [\<lparr>is_same_data_across_replicas = False,
               enable_xla_sharding = UNSPECIFIED, unrestricted_layout = False,
               dtype = DT_INT32, shape = None\<rparr>]\<rparr>) mesh_state w) = Inr k \<and>
        has_guaranteed_const k = False) \<and>
   CreateConfigPrefix
     (metadata\<lparr>args := [\<lparr>is_same_data_across_replicas = True,
        enable_xla_sharding = UNSPECIFIED, unrestricted_layout = False,
        dtype = DT_FLOAT, shape = None\<rparr>]\<rparr>) = '':s,type(1)'' \<and>
   CreateConfigPrefix
     (metadata\<lparr>args := [\<lparr>is_same_data_across_replicas = False,
        enable_xla_sharding = UNSPECIFIED, unrestricted_layout = False,
        dtype = DT_FLOAT, shape = None\<rparr>]\<rparr>) = '':,type(1)''"
  by (simp add: CreateConfigPrefix_def append_arg_def CreateShapePrefix_def key_property_def
      Let_def CreateCompilationCacheKey_OpInputList_def CreateCompilationCacheKey_unfold
      default_key_def DT_INT32_def DT_FLOAT_def AlphaNum_def nat_digits.simps digit_char_def)

subsection \<open>The null pointer with a positive length\<close>


text \<open>
  A native key construction need not look at the number of constants: the one that
  builds its text from the function name and the two prefixes gives the same \<open>prefix\<close>
  for the lengths 3 and 0.
\<close>

lemma prefix_may_ignore_the_count:
  "prefix (projr (fst (CreateCompilationCacheKey sample_native (string_view ''matmul_fn'' [])
      42 (string_view ''module'' []) None 3 [] sample_metadata (TpuMeshStateInterface 0)
      sample_world))) =
   prefix (projr (fst (CreateCompilationCacheKey sample_native (string_view ''matmul_fn'' [])
      42 (string_view ''module'' []) None 0 [] sample_metadata (TpuMeshStateInterface 0)
      sample_world)))"
  by (simp add: CreateCompilationCacheKey_unfold default_key_def
      sample_native_def key_property_def Let_def)



section \<open>The deferred fingerprint\<close>

lemma first_invocation:
  assumes n: "n \<le> length ts"
    and c: "TpuCompilationCacheKey.guaranteed_const_fingerprint k =
            Some \<lparr>cap_metadata = metadata, cap_guaranteed_constants = Some ts,
                  cap_guaranteed_constants_size = n, cap_fingerprint = []\<rparr>"
  shows "\<exists>s. s \<noteq> [] \<and>
    invoke_guaranteed_const_fingerprint hash k w =
      (Inr s,
       k\<lparr>TpuCompilationCacheKey.guaranteed_const_fingerprint :=
           Some \<lparr>cap_metadata = metadata, cap_guaranteed_constants = Some ts,
                 cap_guaranteed_constants_size = n, cap_fingerprint = s\<rparr>\<rparr>,
       w\<lparr>trace := trace w @ CallGuaranteedConstFingerprint #
            (if TPUCompileMetadataProto.guaranteed_const_fingerprint metadata = []
             then rolling_hash_calls hash 0 (take n ts) else [])\<rparr>)"
proof -
  obtain s where s: "s \<noteq> []"
    and g: "GuaranteedConstFingerprint hash
              (TPUCompileMetadataProto.guaranteed_const_fingerprint metadata) (Some ts) n w =
            (Inr s, w\<lparr>trace := trace w @ CallGuaranteedConstFingerprint #
                 (if TPUCompileMetadataProto.guaranteed_const_fingerprint metadata = []
                  then rolling_hash_calls hash 0 (take n ts) else [])\<rparr>)"
    using GuaranteedConstFingerprint_returns [OF n] by blast
  have "invoke_guaranteed_const_fingerprint hash k w =
      (Inr s,
       k\<lparr>TpuCompilationCacheKey.guaranteed_const_fingerprint :=
           Some \<lparr>cap_metadata = metadata, cap_guaranteed_constants = Some ts,
                 cap_guaranteed_constants_size = n, cap_fingerprint = s\<rparr>\<rparr>,
       w\<lparr>trace := trace w @ CallGuaranteedConstFingerprint #
            (if TPUCompileMetadataProto.guaranteed_const_fingerprint metadata = []
             then rolling_hash_calls hash 0 (take n ts) else [])\<rparr>)"
    by (simp add: invoke_guaranteed_const_fingerprint_def call_closure_def c g)
  with s show ?thesis by blast
qed

lemma later_invocation:
  assumes "TpuCompilationCacheKey.guaranteed_const_fingerprint k = Some c"
    and "cap_fingerprint c \<noteq> []"
  shows "invoke_guaranteed_const_fingerprint hash k w = (Inr (cap_fingerprint c), k, w)"
  using assms by (simp add: invoke_guaranteed_const_fingerprint_def call_closure_def)

text \<open>
  Claim C5, as stated, fails: with two constant tensors and no fingerprint in the
  metadata, the first invocation of the closure calls the rolling hash twice, not once.
\<close>

theorem rolling_hash_runs_per_tensor:
  "hash_calls (trace (snd (snd
     (invoke_guaranteed_const_fingerprint sample_hash
        (projr (fst (CreateCompilationCacheKey sample_native (string_view ''matmul_fn'' []) 42
      (string_view ''module'' [])
           (Some [Tensor [1, 2], Tensor [3]]) 2 [] sample_metadata (TpuMeshStateInterface 0)
           sample_world)))
        (snd (CreateCompilationCacheKey sample_native (string_view ''matmul_fn'' []) 42
      (string_view ''module'' [])
           (Some [Tensor [1, 2], Tensor [3]]) 2 [] sample_metadata (TpuMeshStateInterface 0)
           sample_world)))))) = 2"
  by (simp add: CreateCompilationCacheKey_unfold guaranteed_const_fields_def
      invoke_guaranteed_const_fingerprint_def call_closure_def sample_metadata_def
      GuaranteedConstFingerprint_fold hash_calls_def sample_world_def)

text \<open>
  Claim C5, amended. When constants are present (the pointer is not null, the length
  \<open>n\<close> is positive and the array holds \<open>n\<close> tensors), \<open>CreateCompilationCacheKey\<close> itself
  neither runs \<open>GuaranteedConstFingerprint\<close> nor calls the rolling hash. The first
  invocation of \<open>guaranteed_const_fingerprint\<close> on the returned key, in whatever world it
  happens, runs \<open>GuaranteedConstFingerprint\<close> exactly once; in that run the rolling hash
  is called once for each of the \<open>n\<close> tensors when the metadata carries no fingerprint,
  and not at all when it carries one. Every later invocation returns the same text and
  changes nothing: no further run and no further call of the hash.
\<close>

theorem fingerprint_computed_lazily_once:
  fixes w :: "'w world"
  assumes "0 < n" and "n \<le> length ts"
  shows "\<exists>k w1.
    CreateCompilationCacheKey native function_name function_library_fingerprint mlir_module
      (Some ts) n dynamic_shapes metadata mesh_state w = (Inr k, w1) \<and>
    fingerprint_runs (trace w1) = fingerprint_runs (trace w) \<and>
    hash_calls (trace w1) = hash_calls (trace w) \<and>
    (\<forall>wa :: 'w world. \<exists>s k1 wb.
       invoke_guaranteed_const_fingerprint hash k wa = (Inr s, k1, wb) \<and>
       fingerprint_runs (trace wb) = fingerprint_runs (trace wa) + 1 \<and>
       hash_calls (trace wb) = hash_calls (trace wa) +
         (if TPUCompileMetadataProto.guaranteed_const_fingerprint metadata = [] then n else 0) \<and>
       (\<forall>wc :: 'w world. invoke_guaranteed_const_fingerprint hash k1 wc = (Inr s, k1, wc)))"
proof -
  let ?p = "key_property function_name function_library_fingerprint mlir_module n
              dynamic_shapes metadata mesh_state"
  let ?c = "\<lparr>cap_metadata = metadata, cap_guaranteed_constants = Some ts,
             cap_guaranteed_constants_size = n, cap_fingerprint = []\<rparr>"
  obtain k w1 where call:
    "CreateCompilationCacheKey native function_name function_library_fingerprint mlir_module
       (Some ts) n dynamic_shapes metadata mesh_state w = (Inr k, w1)"
    and k: "k = guaranteed_const_fields (Some ts) n metadata
        (default_key\<lparr>prefix := fst (fst (native (native_state w) ?p)),
           TpuCompilationCacheKey.debug_string := snd (fst (native (native_state w) ?p))\<rparr>)"
    and tr: "trace w1 = trace w @
        [CallCreateCompilationCacheKey ?p,
         CallDestroyCompilationCacheKey
           \<lparr>key = next_buffer w, debug_string = Suc (next_buffer w)\<rparr>]"
    using assms(1) by (simp add: CreateCompilationCacheKey_unfold)
  from k have c: "TpuCompilationCacheKey.guaranteed_const_fingerprint k = Some ?c"
    by (simp add: guaranteed_const_fields_def)
  have lazy: "fingerprint_runs (trace w1) = fingerprint_runs (trace w)"
    "hash_calls (trace w1) = hash_calls (trace w)"
    by (simp_all add: tr fingerprint_runs_def hash_calls_def)
  have "\<exists>s k1 wb.
       invoke_guaranteed_const_fingerprint hash k wa = (Inr s, k1, wb) \<and>
       fingerprint_runs (trace wb) = fingerprint_runs (trace wa) + 1 \<and>
       hash_calls (trace wb) = hash_calls (trace wa) +
         (if TPUCompileMetadataProto.guaranteed_const_fingerprint metadata = [] then n else 0) \<and>
       (\<forall>wc :: 'w world. invoke_guaranteed_const_fingerprint hash k1 wc = (Inr s, k1, wc))"
    for wa :: "'w world"
  proof -
    obtain s where s: "s \<noteq> []"
      and first: "invoke_guaranteed_const_fingerprint hash k wa =
        (Inr s,
         k\<lparr>TpuCompilationCacheKey.guaranteed_const_fingerprint := Some (?c\<lparr>cap_fingerprint := s\<rparr>)\<rparr>,
         wa\<lparr>trace := trace wa @ CallGuaranteedConstFingerprint #
            (if TPUCompileMetadataProto.guaranteed_const_fingerprint metadata = []
             then rolling_hash_calls hash 0 (take n ts) else [])\<rparr>)"
      using first_invocation [OF assms(2) c, of hash wa] by auto
    let ?k1 = "k\<lparr>TpuCompilationCacheKey.guaranteed_const_fingerprint :=
                    Some (?c\<lparr>cap_fingerprint := s\<rparr>)\<rparr>"
    let ?wb = "wa\<lparr>trace := trace wa @ CallGuaranteedConstFingerprint #
            (if TPUCompileMetadataProto.guaranteed_const_fingerprint metadata = []
             then rolling_hash_calls hash 0 (take n ts) else [])\<rparr>"
    have runs: "fingerprint_runs (trace ?wb) = fingerprint_runs (trace wa) + 1"
      by (simp add: runs_after_fingerprint fingerprint_runs_rolling runs_Nil)
    have calls: "hash_calls (trace ?wb) = hash_calls (trace wa) +
         (if TPUCompileMetadataProto.guaranteed_const_fingerprint metadata = [] then n else 0)"
      using assms(2) by (simp add: hash_calls_after_fingerprint hash_calls_rolling runs_Nil)
    have later: "invoke_guaranteed_const_fingerprint hash ?k1 wc = (Inr s, ?k1, wc)"
      for wc :: "'w world"
      using later_invocation [of ?k1 "?c\<lparr>cap_fingerprint := s\<rparr>" hash wc] s by simp
    from first runs calls later show ?thesis by blast
  qed
  with call lazy show ?thesis by blast
qed

theorem fingerprint_computed_lazily_once_witness:
  "\<exists>k w1.
    CreateCompilationCacheKey sample_native (string_view ''matmul_fn'' []) 42
      (string_view ''module'' [])
      (Some [Tensor [1, 2], Tensor [3]]) 2 [] sample_metadata (TpuMeshStateInterface 0)
      sample_world = (Inr k, w1) \<and>
    fingerprint_runs (trace w1) = fingerprint_runs (trace sample_world) \<and>
    hash_calls (trace w1) = hash_calls (trace sample_world) \<and>
    (\<forall>wa :: nat world. \<exists>s k1 wb.
       invoke_guaranteed_const_fingerprint sample_hash k wa = (Inr s, k1, wb) \<and>
       fingerprint_runs (trace wb) = fingerprint_runs (trace wa) + 1 \<and>
       hash_calls (trace wb) = hash_calls (trace wa) +
         (if TPUCompileMetadataProto.guaranteed_const_fingerprint sample_metadata = []
          then 2 else 0) \<and>
       (\<forall>wc :: nat world. invoke_guaranteed_const_fingerprint sample_hash k1 wc = (Inr s, k1, wc)))"
proof -
  have a: "0 < (2::nat)" by simp
  have b: "(2::nat) \<le> length [Tensor [1, 2], Tensor [3]]" by simp
  show ?thesis by (rule fingerprint_computed_lazily_once [OF a b])
qed

end
